theory Spec2Isabelle
  imports Main "HOL-Library.Sublist" "HOL-Library.Multiset" "HOL-Library.AList"
begin

section \<open>Data model of \<open>tools/setup-irc.mjs\<close>\<close>

text \<open>
  The script reads a project (sessions, rooms, slots) and drives an IRC client.
  Objects are records. A property that may be \<open>undefined\<close> in JavaScript
  (a session's slot and room, the attendance field, the agenda and slides links) is
  a \<open>string option\<close>, \<open>None\<close> standing for \<open>undefined\<close>. Every session carries
  a description with a materials object and an array of chairs, as the script reads
  their properties without a test. Session numbers are GitHub issue numbers, modelled
  as \<open>int\<close>. The \<open>done\<close> property that the part listener adds to a session is the
  field \<open>is_done\<close> (it starts out \<open>undefined\<close>, which is falsy, hence \<open>False\<close>).
\<close>

record chair =
  chair_name :: string

record materials =
  agenda :: "string option"
  slides :: "string option"

record description =
  shortname :: string
  attendance :: "string option"
  materials :: materials

record session =
  number :: int
  title :: string
  slot :: "string option"
  room :: "string option"
  repository :: string
  chairs :: "chair list"
  description :: description
  is_done :: bool

record room_info =
  room_name :: string
  room_label :: string

record slot_info =
  slot_name :: string

record project =
  sessions :: "session list"
  rooms :: "room_info list"
  slots :: "slot_info list"

text \<open>The run parameters captured by \<open>main\<close>: the two mode flags.\<close>

record config =
  onlyCommands :: bool
  dismissBots :: bool

text \<open>
  What the script asks of the IRC client. Every helper (\<open>joinChannel\<close>,
  \<open>inviteBot\<close>, \<open>setTopic\<close>, \<open>say\<close>) prints the command on the console and, in a
  live run, performs it on the client; \<open>bot.part\<close> and \<open>bot.disconnect\<close> are
  performed without being printed.
\<close>

datatype command =
    Join string
  | Invite string string
  | Topic string string
  | Say string string
  | Part string
  | Disconnect

definition botName :: string where
  "botName = ''tpac-breakout-bot''"

subsection \<open>JavaScript primitives used by the script\<close>

definition js_truthy :: "string option \<Rightarrow> bool" where
  \<comment> \<open>truthiness of a value that is a string or \<open>undefined\<close>: the empty string is falsy\<close>
  "js_truthy v = (case v of None \<Rightarrow> False | Some s \<Rightarrow> s \<noteq> [])"

definition js_string :: "string option \<Rightarrow> string" where
  \<comment> \<open>a value interpolated in a template literal\<close>
  "js_string v = (case v of None \<Rightarrow> ''undefined'' | Some s \<Rightarrow> s)"

definition digit_char :: "nat \<Rightarrow> char" where
  "digit_char d = char_of (48 + d)"

function show_nat :: "nat \<Rightarrow> string" where
  "show_nat n = (if n < 10 then [digit_char n]
                 else show_nat (n div 10) @ [digit_char (n mod 10)])"
  by pat_completeness auto
termination
  by (relation "measure id") auto

declare show_nat.simps [simp del]

definition show_int :: "int \<Rightarrow> string" where
  \<comment> \<open>an integer interpolated in a template literal: its decimal digits\<close>
  "show_int i = (if i < 0 then CHR ''-'' # show_nat (nat (- i)) else show_nat (nat i))"

fun join :: "string \<Rightarrow> string list \<Rightarrow> string" where
  "join sep [] = []"
| "join sep [x] = x"
| "join sep (x # y # ys) = x @ sep @ join sep (y # ys)"

subsection \<open>Helpers of \<open>main\<close>\<close>

definition getChannel :: "session \<Rightarrow> string" where
  "getChannel session = shortname (description session)"

definition joinChannel :: "session \<Rightarrow> command list" where
  "joinChannel session = [Join (getChannel session)]"

definition inviteBot :: "session \<Rightarrow> string \<Rightarrow> command list" where
  "inviteBot session name = [Invite name (getChannel session)]"

definition roomLabel :: "project \<Rightarrow> session \<Rightarrow> string" where
  "roomLabel project session =
     (case find (\<lambda>r. Some (room_name r) = room session) (rooms project) of
        Some r \<Rightarrow> ''- '' @ room_label r @ '' ''
      | None \<Rightarrow> '''')"

definition topic_text :: "project \<Rightarrow> session \<Rightarrow> string" where
  "topic_text project session =
     ''TPAC breakout: '' @ title session @ '' '' @ roomLabel project session
       @ ''- '' @ js_string (slot session)"

definition setTopic :: "project \<Rightarrow> session \<Rightarrow> command list" where
  "setTopic project session = [Topic (getChannel session) (topic_text project session)]"

definition say :: "string \<Rightarrow> string \<Rightarrow> command list" where
  "say channel msg = [Say channel msg]"

definition bot_part :: "config \<Rightarrow> string \<Rightarrow> command list" where
  \<comment> \<open>\<open>if (bot) { bot.part(channel); }\<close>: the client exists in a live run only\<close>
  "bot_part cfg channel = (if onlyCommands cfg then [] else [Part channel])"

subsection \<open>The command planner: \<open>sendChannelBotCommands\<close>\<close>

definition logs_visibility :: "session \<Rightarrow> string" where
  "logs_visibility session =
     (if attendance (description session) = Some ''restricted'' then ''member'' else ''public'')"

definition agenda_msg :: "string list \<Rightarrow> session \<Rightarrow> string" where
  "agenda_msg todoStrings session =
     (let a = agenda (materials (description session)) in
      if js_truthy a \<and> js_string a \<notin> set todoStrings
      then ''Agenda: '' @ js_string a
      else ''Agenda: https://github.com/'' @ repository session @ ''/issues/''
             @ show_int (number session))"

definition slides_cmds :: "string list \<Rightarrow> string \<Rightarrow> session \<Rightarrow> command list" where
  "slides_cmds todoStrings channel session =
     (let s = slides (materials (description session)) in
      if js_truthy s \<and> js_string s \<notin> set todoStrings
      then say channel (''Slideset: '' @ js_string s)
      else [])"

definition rrsagent_cmds :: "config \<Rightarrow> string list \<Rightarrow> string \<Rightarrow> session \<Rightarrow> command list" where
  "rrsagent_cmds cfg todoStrings channel session =
     say channel ''RRSAgent, do not leave''
     @ say channel (''RRSAgent, make logs '' @ logs_visibility session)
     @ say channel (''Meeting: '' @ title session)
     @ say channel (''Chair: '' @ join '', '' (map chair_name (chairs session)))
     @ say channel (agenda_msg todoStrings session)
     @ slides_cmds todoStrings channel session
     @ say channel ''clear agenda''
     @ say channel ''agenda+ Pick a scribe''
     @ say channel ''agenda+ Reminders: code of conduct, health policies, recorded session policy''
     @ say channel ''agenda+ Goal of this session''
     @ say channel ''agenda+ Discussion''
     @ say channel ''agenda+ Next steps / where discussion continues''
     @ bot_part cfg channel"

definition botname_cmds :: "config \<Rightarrow> project \<Rightarrow> string \<Rightarrow> session \<Rightarrow> command list" where
  "botname_cmds cfg project channel session =
     (if dismissBots cfg
      then say channel ''RRSAgent, draft minutes''
           @ say channel ''RRSAgent, bye''
           @ say channel ''Zakim, bye''
           @ bot_part cfg channel
      else setTopic project session
           @ inviteBot session ''Zakim''
           @ inviteBot session ''RRSAgent'')"

definition sendChannelBotCommands ::
  "config \<Rightarrow> string list \<Rightarrow> project \<Rightarrow> session list \<Rightarrow> string \<Rightarrow> string \<Rightarrow> command list" where
  "sendChannelBotCommands cfg todoStrings project ss channel nick =
     (case find (\<lambda>s. channel = getChannel s) ss of
        None \<Rightarrow> []
      | Some session \<Rightarrow>
          if nick = botName then botname_cmds cfg project channel session
          else if nick = ''RRSAgent'' then rrsagent_cmds cfg todoStrings channel session
          else if nick = ''Zakim'' then []
          else [])"

subsection \<open>Retrieving and validating the sessions\<close>

text \<open>
  \<open>getEnvKey\<close>, \<open>fetchProject\<close> and \<open>validateSession\<close> come from the script's
  libraries: the two environment keys and the fetched project (\<open>None\<close> when
  \<open>fetchProject\<close> returns nothing) are inputs, and the validator is a parameter. An
  \<open>Error\<close> thrown by \<open>main\<close> is the value \<open>Error msg\<close>; a \<open>TypeError\<close> raised by
  the runtime is \<open>TypeError msg\<close>; an error of the IRC client that the error listener
  throws again is \<open>Thrown err\<close>.
\<close>

record env =
  PROJECT_OWNER :: string
  PROJECT_NUMBER :: string

record finding =
  severity :: string
  message :: string

record irc_error =
  err_command :: string
  err_args :: "string list"

datatype error =
    Error string
  | TypeError string
  | Thrown irc_error

type_synonym validator = "int \<Rightarrow> project \<Rightarrow> finding list"

definition given_number :: "int option \<Rightarrow> bool" where
  \<comment> \<open>the test \<open>if (number)\<close>: \<open>undefined\<close> and \<open>0\<close> are falsy\<close>
  "given_number target_number = (target_number \<noteq> None \<and> target_number \<noteq> Some 0)"

definition project_id :: "env \<Rightarrow> string" where
  "project_id e = PROJECT_OWNER e @ ''/'' @ PROJECT_NUMBER e"

definition select_sessions :: "int option \<Rightarrow> string option \<Rightarrow> project \<Rightarrow> session list" where
  \<comment> \<open>the filter on slot, number and slot prefix, then the sort by session number\<close>
  "select_sessions target_number target_slot project =
     sort_key number
       (filter (\<lambda>s. js_truthy (slot s)
                  \<and> (\<not> given_number target_number \<or> Some (number s) = target_number)
                  \<and> (\<not> js_truthy target_slot \<or> prefix (js_string target_slot) (js_string (slot s))))
          (sessions project))"

definition sessionErrors :: "validator \<Rightarrow> project \<Rightarrow> session \<Rightarrow> finding list" where
  "sessionErrors validateSession project session =
     filter (\<lambda>e. severity e = ''error'') (validateSession (number session) project)"

definition valid_sessions :: "validator \<Rightarrow> project \<Rightarrow> session list \<Rightarrow> session list" where
  \<comment> \<open>a session with an error finding becomes \<open>null\<close> and is filtered out\<close>
  "valid_sessions validateSession project ss =
     filter (\<lambda>s. \<not> length (sessionErrors validateSession project s) > 0) ss"

definition found_line :: "string option \<Rightarrow> session list \<Rightarrow> string" where
  "found_line target_slot ss =
     (if js_truthy target_slot
      then ''- found '' @ show_nat (length ss) @ '' sessions assigned to slot ''
             @ js_string target_slot @ '': '' @ join '', '' (map (\<lambda>s. show_int (number s)) ss)
      else ''- found '' @ show_nat (length ss) @ '' sessions assigned to slots: ''
             @ join '', '' (map (\<lambda>s. show_int (number s)) ss))"

definition valid_line :: "session list \<Rightarrow> string" where
  "valid_line ss =
     ''- found '' @ show_nat (length ss) @ '' valid sessions among them: ''
       @ join '', '' (map (\<lambda>s. show_int (number s)) ss)"

definition retrieve_sessions ::
  "env \<Rightarrow> validator \<Rightarrow> int option \<Rightarrow> string option \<Rightarrow> project option
     \<Rightarrow> string list \<times> (error + session list)" where
  \<comment> \<open>lines 39 to 84 of \<open>main\<close>: the console lines printed, and the error thrown or the valid sessions\<close>
  "retrieve_sessions e validateSession target_number target_slot fetched =
     (let log0 = [[], ''Retrieve project '' @ project_id e @ ''...''] in
      case fetched of
        None \<Rightarrow> (log0, Inl (Error (''Project '' @ project_id e @ '' could not be retrieved'')))
      | Some project \<Rightarrow>
          let ss = select_sessions target_number target_slot project in
          if given_number target_number \<and> length ss = 0
          then (log0, Inl (Error (''Session '' @ show_int (the target_number)
                  @ '' not found in project '' @ project_id e
                  @ '' or not assigned to requested slot'')))
          else if given_number target_number \<and> \<not> js_truthy (slot (hd ss))
          then (log0, Inl (Error (''Session '' @ show_int (the target_number)
                  @ '' not assigned to a slot in project '' @ project_id e)))
          else
            let log1 = log0 @ (if given_number target_number then [] else [found_line target_slot ss]);
                vs = valid_sessions validateSession project ss
            in if given_number target_number \<and> length vs = 0
               then (log1, Inl (Error (''Session '' @ show_int (the target_number)
                       @ '' contains errors that need fixing'')))
               else (log1 @ (if given_number target_number then [] else [valid_line vs])
                       @ [''Retrieve project '' @ project_id e @ '' and session(s)... done''],
                     Inr vs))"

subsection \<open>Computing the IRC channels\<close>

text \<open>
  \<open>channels\<close> is an object created as \<open>{}\<close> and used as a dictionary from channel name
  to the array of the sessions of that channel. Its own properties are an association
  list in insertion order, a new key appended and an existing key updated in place.
  Reading \<open>channels[channel]\<close> for a name that is no own property falls back on the
  properties that every object inherits from \<open>Object.prototype\<close>: such a value is
  truthy, so no array is created for it, and it has no \<open>push\<close> method, so the call
  \<open>channels[channel].push(session)\<close> throws a \<open>TypeError\<close>.
  \<open>Array.prototype.sort\<close> is stable, so sorting with the comparator \<open>slot1 - slot2\<close>
  is the stable sort on the slot index. \<open>Object.values\<close> enumerates the keys that are
  array indices first, in ascending numeric order, then the other keys in insertion
  order.
\<close>

fun findIndex :: "('a \<Rightarrow> bool) \<Rightarrow> 'a list \<Rightarrow> int" where
  "findIndex P [] = - 1"
| "findIndex P (x # xs) =
     (if P x then 0 else (let i = findIndex P xs in if i < 0 then - 1 else i + 1))"

definition slot_index :: "project \<Rightarrow> session \<Rightarrow> int" where
  "slot_index project s = findIndex (\<lambda>sl. Some (slot_name sl) = slot s) (slots project)"

type_synonym channels = "(string \<times> session list) list"

definition inherited_properties :: "string list" where
  \<comment> \<open>the names of the properties of \<open>Object.prototype\<close>, which \<open>{}\<close> inherits\<close>
  "inherited_properties =
     [''constructor'', ''__defineGetter__'', ''__defineSetter__'', ''hasOwnProperty'',
      ''__lookupGetter__'', ''__lookupSetter__'', ''isPrototypeOf'',
      ''propertyIsEnumerable'', ''toString'', ''valueOf'', ''__proto__'',
      ''toLocaleString'']"

definition add_session :: "project \<Rightarrow> channels \<Rightarrow> session \<Rightarrow> error + channels" where
  \<comment> \<open>one iteration of the loop over the sessions: an own property is an array, to which
      the session is pushed; an inherited property makes \<open>push\<close> throw; otherwise the
      array is created first\<close>
  "add_session project channels session =
     (let channel = getChannel session in
      case map_of channels channel of
        Some g \<Rightarrow>
          Inr (AList.update channel (sort_key (slot_index project) (g @ [session])) channels)
      | None \<Rightarrow>
          if channel \<in> set inherited_properties
          then Inl (TypeError ''channels[channel].push is not a function'')
          else Inr (AList.update channel (sort_key (slot_index project) ([] @ [session]))
                      channels))"

fun compute_channels_from :: "project \<Rightarrow> channels \<Rightarrow> session list \<Rightarrow> error + channels" where
  \<comment> \<open>the loop over the sessions, from the object built so far; a throw ends it\<close>
  "compute_channels_from project channels [] = Inr channels"
| "compute_channels_from project channels (session # ss) =
     (case add_session project channels session of
        Inl err \<Rightarrow> Inl err
      | Inr channels' \<Rightarrow> compute_channels_from project channels' ss)"

definition compute_channels :: "project \<Rightarrow> session list \<Rightarrow> error + channels" where
  "compute_channels project ss = compute_channels_from project [] ss"

definition is_digit :: "char \<Rightarrow> bool" where
  "is_digit c = (48 \<le> (of_char c :: nat) \<and> (of_char c :: nat) \<le> 57)"

definition array_index :: "string \<Rightarrow> int option" where
  \<comment> \<open>a key that is the canonical decimal form of an integer below \<open>2^32 - 1\<close>\<close>
  "array_index k =
     (if k \<noteq> [] \<and> list_all is_digit k \<and> (hd k \<noteq> CHR ''0'' \<or> k = ''0'')
      then (let n = foldl (\<lambda>a c. 10 * a + (of_char c - 48)) (0::int) k
            in if n < 4294967295 then Some n else None)
      else None)"

definition object_values :: "(string \<times> 'a) list \<Rightarrow> 'a list" where
  "object_values kvs =
     map snd (sort_key (\<lambda>kv. the (array_index (fst kv)))
                (filter (\<lambda>kv. array_index (fst kv) \<noteq> None) kvs)
              @ filter (\<lambda>kv. array_index (fst kv) = None) kvs)"

definition representatives :: "channels \<Rightarrow> session list" where
  \<comment> \<open>\<open>Object.values(channels).map(sessions => sessions[0])\<close>; no array of \<open>channels\<close> is empty\<close>
  "representatives channels = map hd (object_values channels)"

subsection \<open>The dry run\<close>

definition dry_run :: "config \<Rightarrow> string list \<Rightarrow> project \<Rightarrow> session list \<Rightarrow> command list" where
  \<comment> \<open>the commands printed when \<open>onlyCommands\<close> is set\<close>
  "dry_run cfg todoStrings project ss =
     concat (map (\<lambda>session.
        joinChannel session
        @ sendChannelBotCommands cfg todoStrings project ss (getChannel session) botName
        @ (if \<not> dismissBots cfg
           then sendChannelBotCommands cfg todoStrings project ss (getChannel session) ''RRSAgent''
           else [])) ss)"

subsection \<open>The live run: the listeners on the IRC client\<close>

text \<open>
  The state of a live run is the array \<open>sessions\<close> of representative sessions, whose
  \<open>done\<close> flags the part listener sets, and the commands performed on the client so
  far. A listener that throws ends the process: \<open>Inl\<close>.
\<close>

datatype event =
    Registered
  | Raw
  | ErrorEvent irc_error
  | JoinEvent string string
  | PartEvent string string

record run_state =
  reps :: "session list"
  performed :: "command list"

definition js_index :: "'a list \<Rightarrow> nat \<Rightarrow> 'a option" where
  \<comment> \<open>reading an array element: \<open>undefined\<close> out of range\<close>
  "js_index xs i = (if i < length xs then Some (xs ! i) else None)"

fun mark_done :: "string \<Rightarrow> session list \<Rightarrow> session list" where
  \<comment> \<open>\<open>session.done = true\<close> on the session that \<open>find\<close> returns, the first of that channel\<close>
  "mark_done channel [] = []"
| "mark_done channel (s # ss) =
     (if channel = getChannel s then s\<lparr>is_done := True\<rparr> # ss else s # mark_done channel ss)"

definition on_registered :: "run_state \<Rightarrow> error + run_state" where
  "on_registered st =
     Inr (st\<lparr>performed := performed st @ concat (map joinChannel (reps st))\<rparr>)"

definition on_join ::
  "config \<Rightarrow> string list \<Rightarrow> project \<Rightarrow> string \<Rightarrow> string \<Rightarrow> run_state \<Rightarrow> error + run_state" where
  "on_join cfg todoStrings project channel nick st =
     Inr (st\<lparr>performed := performed st
              @ sendChannelBotCommands cfg todoStrings project (reps st) channel nick\<rparr>)"

definition on_error ::
  "config \<Rightarrow> string list \<Rightarrow> project \<Rightarrow> irc_error \<Rightarrow> run_state \<Rightarrow> error + run_state" where
  \<comment> \<open>with \<open>args[1]\<close> or \<open>args[2]\<close> undefined, \<open>sendChannelBotCommands\<close> finds no session
      (no channel name is \<open>undefined\<close>) or no branch for the nickname, and sends nothing\<close>
  "on_error cfg todoStrings project err st =
     (if err_command err = ''err_useronchannel''
      then (case (js_index (err_args err) 1, js_index (err_args err) 2) of
              (Some nick, Some channel) \<Rightarrow>
                Inr (st\<lparr>performed := performed st
                         @ sendChannelBotCommands cfg todoStrings project (reps st) channel nick\<rparr>)
            | _ \<Rightarrow> Inr st)
      else Inl (Thrown err))"

definition on_part :: "string \<Rightarrow> string \<Rightarrow> run_state \<Rightarrow> error + run_state" where
  "on_part channel nick st =
     (if nick \<noteq> botName then Inr st
      else case find (\<lambda>s. channel = getChannel s) (reps st) of
             None \<Rightarrow> Inr st
           | Some session \<Rightarrow>
               let ss = mark_done channel (reps st)
               in Inr (st\<lparr>reps := ss,
                          performed := performed st
                            @ (if list_all is_done ss then [Disconnect] else [])\<rparr>))"

fun step :: "config \<Rightarrow> string list \<Rightarrow> project \<Rightarrow> event \<Rightarrow> run_state \<Rightarrow> error + run_state" where
  "step cfg todoStrings project Registered st = on_registered st"
| "step cfg todoStrings project Raw st = Inr st"
| "step cfg todoStrings project (ErrorEvent err) st = on_error cfg todoStrings project err st"
| "step cfg todoStrings project (JoinEvent channel nick) st =
     on_join cfg todoStrings project channel nick st"
| "step cfg todoStrings project (PartEvent channel nick) st = on_part channel nick st"

fun run :: "config \<Rightarrow> string list \<Rightarrow> project \<Rightarrow> event list \<Rightarrow> run_state \<Rightarrow> error + run_state" where
  \<comment> \<open>the events of a live run, handled one after the other until a listener throws\<close>
  "run cfg todoStrings project [] st = Inr st"
| "run cfg todoStrings project (e # es) st =
     (case step cfg todoStrings project e st of
        Inl err \<Rightarrow> Inl err
      | Inr st' \<Rightarrow> run cfg todoStrings project es st')"

fun states :: "config \<Rightarrow> string list \<Rightarrow> project \<Rightarrow> event list \<Rightarrow> run_state \<Rightarrow> run_state list" where
  \<comment> \<open>the successive states of a live run, the initial one first\<close>
  "states cfg todoStrings project [] st = [st]"
| "states cfg todoStrings project (e # es) st =
     st # (case step cfg todoStrings project e st of
             Inl err \<Rightarrow> []
           | Inr st' \<Rightarrow> states cfg todoStrings project es st')"

definition done_changes :: "nat \<Rightarrow> run_state list \<Rightarrow> nat" where
  \<comment> \<open>how many times the \<open>done\<close> flag of the \<open>i\<close>-th session changes along the states\<close>
  "done_changes i sts =
     length (filter (\<lambda>(a, b). is_done (reps a ! i) \<noteq> is_done (reps b ! i)) (zip sts (tl sts)))"

subsection \<open>Kinds of commands\<close>

definition is_topic :: "command \<Rightarrow> bool" where
  "is_topic c = (case c of Topic channel topic \<Rightarrow> True | _ \<Rightarrow> False)"

definition is_invite :: "command \<Rightarrow> bool" where
  "is_invite c = (case c of Invite name channel \<Rightarrow> True | _ \<Rightarrow> False)"

definition is_draft_minutes :: "command \<Rightarrow> bool" where
  "is_draft_minutes c = (case c of Say channel msg \<Rightarrow> msg = ''RRSAgent, draft minutes'' | _ \<Rightarrow> False)"

definition is_bye :: "command \<Rightarrow> bool" where
  "is_bye c = (case c of Say channel msg \<Rightarrow> msg = ''RRSAgent, bye'' \<or> msg = ''Zakim, bye'' | _ \<Rightarrow> False)"

definition is_agenda_link :: "command \<Rightarrow> bool" where
  "is_agenda_link c = (case c of Say channel msg \<Rightarrow> prefix ''Agenda: '' msg | _ \<Rightarrow> False)"

definition is_slideset :: "command \<Rightarrow> bool" where
  "is_slideset c = (case c of Say channel msg \<Rightarrow> prefix ''Slideset: '' msg | _ \<Rightarrow> False)"

definition is_make_logs :: "command \<Rightarrow> bool" where
  "is_make_logs c = (case c of Say channel msg \<Rightarrow> prefix ''RRSAgent, make logs '' msg | _ \<Rightarrow> False)"

subsection \<open>A small project\<close>

definition ex_session :: session where
  "ex_session = \<lparr>number = 42, title = ''Web Things'', slot = Some ''14:00'',
     room = Some ''Room A'', repository = ''w3c/tpac2023-breakouts'',
     chairs = [\<lparr>chair_name = ''Ada''\<rparr>, \<lparr>chair_name = ''Grace''\<rparr>],
     description = \<lparr>shortname = ''#web-things'', attendance = Some ''restricted'',
       materials = \<lparr>agenda = Some ''https://example.org/agenda'',
                     slides = Some ''https://example.org/slides''\<rparr>\<rparr>,
     is_done = False\<rparr>"

definition ex_session2 :: session where
  "ex_session2 = \<lparr>number = 57, title = ''Web Things, continued'', slot = Some ''9:30'',
     room = Some ''Cellar'', repository = ''w3c/tpac2023-breakouts'',
     chairs = [\<lparr>chair_name = ''Ada''\<rparr>],
     description = \<lparr>shortname = ''#web-things'', attendance = Some ''open'',
       materials = \<lparr>agenda = Some ''TBD'', slides = None\<rparr>\<rparr>,
     is_done = False\<rparr>"

definition ex_session3 :: session where
  "ex_session3 = \<lparr>number = 8, title = ''Maps'', slot = Some ''18:00'',
     room = None, repository = ''w3c/tpac2023-breakouts'',
     chairs = [],
     description = \<lparr>shortname = ''#maps'', attendance = None,
       materials = \<lparr>agenda = None, slides = Some ''TBD''\<rparr>\<rparr>,
     is_done = False\<rparr>"

definition ex_session4 :: session where
  "ex_session4 = \<lparr>number = 61, title = ''Constructors'', slot = Some ''9:30'',
     room = None, repository = ''w3c/tpac2023-breakouts'',
     chairs = [],
     description = \<lparr>shortname = ''constructor'', attendance = None,
       materials = \<lparr>agenda = None, slides = None\<rparr>\<rparr>,
     is_done = False\<rparr>"

definition ex_project :: project where
  "ex_project = \<lparr>sessions = [ex_session, ex_session2, ex_session3],
     rooms = [\<lparr>room_name = ''Room A'', room_label = ''Room A (2nd floor)''\<rparr>],
     slots = [\<lparr>slot_name = ''9:30''\<rparr>, \<lparr>slot_name = ''14:00''\<rparr>]\<rparr>"

definition ex_todo :: "string list" where
  "ex_todo = [''TBD'', ''TODO'']"

definition ex_dry :: config where
  "ex_dry = \<lparr>onlyCommands = True, dismissBots = False\<rparr>"

definition ex_live :: config where
  "ex_live = \<lparr>onlyCommands = False, dismissBots = False\<rparr>"

definition ex_dismiss :: config where
  "ex_dismiss = \<lparr>onlyCommands = False, dismissBots = True\<rparr>"

definition ex_env :: env where
  "ex_env = \<lparr>PROJECT_OWNER = ''w3c'', PROJECT_NUMBER = ''57''\<rparr>"

definition ex_validate :: validator where
  \<comment> \<open>session 57 has an error, session 8 a warning\<close>
  "ex_validate n p =
     (if n = 57 then [\<lparr>severity = ''error'', message = ''chairs''\<rparr>]
      else if n = 8 then [\<lparr>severity = ''warning'', message = ''duration''\<rparr>]
      else [])"

definition ex_state :: run_state where
  "ex_state = \<lparr>reps = [ex_session2, ex_session3], performed = []\<rparr>"

definition ex_err_on_channel :: irc_error where
  "ex_err_on_channel = \<lparr>err_command = ''err_useronchannel'',
     err_args = [''tpac-breakout-bot'', ''RRSAgent'', ''#maps'', ''is already on channel'']\<rparr>"

definition ex_err_other :: irc_error where
  "ex_err_other = \<lparr>err_command = ''err_nosuchnick'',
     err_args = [''tpac-breakout-bot'', ''Zakim'', ''No such nick/channel'']\<rparr>"

section \<open>Properties of the command planner\<close>

lemma find_channel_eq:
  "find (\<lambda>s. channel = getChannel s) ss = Some session \<Longrightarrow> getChannel session = channel"
  by (auto simp: find_Some_iff)

lemma send_botName:
  "find (\<lambda>s. channel = getChannel s) ss = Some session \<Longrightarrow>
   sendChannelBotCommands cfg todoStrings project ss channel botName =
     botname_cmds cfg project channel session"
  by (simp add: sendChannelBotCommands_def)

lemma send_RRSAgent:
  "find (\<lambda>s. channel = getChannel s) ss = Some session \<Longrightarrow>
   sendChannelBotCommands cfg todoStrings project ss channel ''RRSAgent'' =
     rrsagent_cmds cfg todoStrings channel session"
  by (simp add: sendChannelBotCommands_def botName_def)

lemma send_not_found:
  "find (\<lambda>s. channel = getChannel s) ss = None \<Longrightarrow>
   sendChannelBotCommands cfg todoStrings project ss channel nick = []"
  by (simp add: sendChannelBotCommands_def)

lemma send_botName_setup:
  assumes "find (\<lambda>s. channel = getChannel s) ss = Some session"
    and "\<not> dismissBots cfg"
  shows "sendChannelBotCommands cfg todoStrings project ss channel botName =
           [Topic channel (topic_text project session),
            Invite ''Zakim'' channel,
            Invite ''RRSAgent'' channel]"
  using assms find_channel_eq [OF assms(1)]
  by (simp add: send_botName botname_cmds_def setTopic_def inviteBot_def)

lemma ex_find_web_things:
  "find (\<lambda>s. ''#web-things'' = getChannel s) [ex_session] = Some ex_session"
  by (simp add: getChannel_def ex_session_def)

text \<open>
  Claim C1, as the code has it. When the driving bot's own nickname joins the channel of
  a session and dismiss mode is off, the planner emits exactly three commands, in this
  order: the topic of the channel, the invitation of Zakim (the timing bot), then the
  invitation of RRSAgent (the logging bot).
\<close>

theorem driving_bot_join_commands:
  assumes "find (\<lambda>s. channel = getChannel s) ss = Some session"
    and "\<not> dismissBots cfg"
  shows "sendChannelBotCommands cfg todoStrings project ss channel botName =
           [Topic channel (topic_text project session),
            Invite ''Zakim'' channel,
            Invite ''RRSAgent'' channel]"
  using assms by (rule send_botName_setup)

theorem driving_bot_join_commands_witness:
  "find (\<lambda>s. ''#web-things'' = getChannel s) [ex_session] = Some ex_session
   \<and> \<not> dismissBots ex_live
   \<and> sendChannelBotCommands ex_live ex_todo ex_project [ex_session] ''#web-things'' botName =
       [Topic ''#web-things'' ''TPAC breakout: Web Things - Room A (2nd floor) - 14:00'',
        Invite ''Zakim'' ''#web-things'',
        Invite ''RRSAgent'' ''#web-things'']"
proof -
  have d: "\<not> dismissBots ex_live"
    by (simp add: ex_live_def)
  have t: "topic_text ex_project ex_session =
             ''TPAC breakout: Web Things - Room A (2nd floor) - 14:00''"
    by (simp add: topic_text_def roomLabel_def ex_project_def ex_session_def js_string_def)
  from driving_bot_join_commands [OF ex_find_web_things d, of ex_todo ex_project]
    ex_find_web_things d t
  show ?thesis by simp
qed

text \<open>
  The order that claim C1 states (the logging bot invited before the timing bot) is not
  the order of the code: on the example session the planner does not emit topic,
  RRSAgent, Zakim.
\<close>

theorem invite_order_counterexample:
  "sendChannelBotCommands ex_live ex_todo ex_project [ex_session] ''#web-things'' botName \<noteq>
       [Topic ''#web-things'' ''TPAC breakout: Web Things - Room A (2nd floor) - 14:00'',
        Invite ''RRSAgent'' ''#web-things'',
        Invite ''Zakim'' ''#web-things'']"
  by (simp add: sendChannelBotCommands_def botname_cmds_def setTopic_def inviteBot_def
      getChannel_def ex_session_def ex_live_def)


lemma is_agenda_link_simps [simp]:
  "is_agenda_link (Say channel msg) = prefix ''Agenda: '' msg"
  "is_agenda_link (Part channel) = False"
  by (simp_all add: is_agenda_link_def)

lemma is_slideset_simps [simp]:
  "is_slideset (Say channel msg) = prefix ''Slideset: '' msg"
  "is_slideset (Part channel) = False"
  by (simp_all add: is_slideset_def)

lemma is_make_logs_simps [simp]:
  "is_make_logs (Say channel msg) = prefix ''RRSAgent, make logs '' msg"
  "is_make_logs (Part channel) = False"
  by (simp_all add: is_make_logs_def)

lemma agenda_msg_prefix: "prefix ''Agenda: '' (agenda_msg todoStrings session)"
  by (simp add: agenda_msg_def Let_def)

lemma agenda_msg_not_slideset: "\<not> prefix ''Slideset: '' (agenda_msg todoStrings session)"
  by (simp add: agenda_msg_def Let_def)

lemma agenda_msg_not_make_logs: "\<not> prefix ''RRSAgent, make logs '' (agenda_msg todoStrings session)"
  by (simp add: agenda_msg_def Let_def)

lemma filter_agenda_slides_cmds: "filter is_agenda_link (slides_cmds todoStrings channel session) = []"
  by (simp add: slides_cmds_def say_def Let_def)

lemma filter_make_logs_slides_cmds: "filter is_make_logs (slides_cmds todoStrings channel session) = []"
  by (simp add: slides_cmds_def say_def Let_def)

lemma filter_agenda_rrsagent:
  "filter is_agenda_link (rrsagent_cmds cfg todoStrings channel session) =
     [Say channel (agenda_msg todoStrings session)]"
  by (simp add: rrsagent_cmds_def say_def bot_part_def filter_agenda_slides_cmds agenda_msg_prefix)

lemma filter_slideset_rrsagent:
  "filter is_slideset (rrsagent_cmds cfg todoStrings channel session) =
     filter is_slideset (slides_cmds todoStrings channel session)"
  by (simp add: rrsagent_cmds_def say_def bot_part_def agenda_msg_not_slideset)

lemma filter_make_logs_rrsagent:
  "filter is_make_logs (rrsagent_cmds cfg todoStrings channel session) =
     [Say channel (''RRSAgent, make logs '' @ logs_visibility session)]"
  by (simp add: rrsagent_cmds_def say_def bot_part_def agenda_msg_not_make_logs
      filter_make_logs_slides_cmds)

text \<open>
  Claim C3. In the commands sent when RRSAgent (the logging bot) joins the channel of a
  session, there is exactly one agenda announcement. When the agenda of the session's
  materials is absent (\<open>undefined\<close> or the empty string, the falsy values of the test
  in the code) or is one of the placeholder strings, it announces the synthesized URL
  \<open>https://github.com/<repository>/issues/<number>\<close>; when the agenda is present and
  is no placeholder, it announces that string verbatim.
\<close>

theorem agenda_link_selection:
  assumes "find (\<lambda>s. channel = getChannel s) ss = Some session"
  shows "((agenda (materials (description session)) = None
           \<or> agenda (materials (description session)) = Some []
           \<or> (\<exists>a \<in> set todoStrings. agenda (materials (description session)) = Some a))
          \<longrightarrow> filter is_agenda_link
                (sendChannelBotCommands cfg todoStrings project ss channel ''RRSAgent'') =
              [Say channel (''Agenda: https://github.com/'' @ repository session
                              @ ''/issues/'' @ show_int (number session))])
       \<and> (\<forall>a. agenda (materials (description session)) = Some a \<and> a \<noteq> [] \<and> a \<notin> set todoStrings
          \<longrightarrow> filter is_agenda_link
                (sendChannelBotCommands cfg todoStrings project ss channel ''RRSAgent'') =
              [Say channel (''Agenda: '' @ a)])"
  unfolding send_RRSAgent [OF assms] filter_agenda_rrsagent
  by (auto simp: agenda_msg_def js_truthy_def js_string_def)

lemma ex_find_web_things2:
  "find (\<lambda>s. ''#web-things'' = getChannel s) [ex_session2] = Some ex_session2"
  by (simp add: getChannel_def ex_session2_def)

lemma ex_find_maps:
  "find (\<lambda>s. ''#maps'' = getChannel s) [ex_session3] = Some ex_session3"
  by (simp add: getChannel_def ex_session3_def)

theorem agenda_link_selection_witness:
  "find (\<lambda>s. ''#web-things'' = getChannel s) [ex_session] = Some ex_session
   \<and> agenda (materials (description ex_session)) = Some ''https://example.org/agenda''
   \<and> ''https://example.org/agenda'' \<noteq> [] \<and> ''https://example.org/agenda'' \<notin> set ex_todo
   \<and> filter is_agenda_link
        (sendChannelBotCommands ex_live ex_todo ex_project [ex_session] ''#web-things'' ''RRSAgent'') =
       [Say ''#web-things'' ''Agenda: https://example.org/agenda'']
   \<and> find (\<lambda>s. ''#web-things'' = getChannel s) [ex_session2] = Some ex_session2
   \<and> (\<exists>a \<in> set ex_todo. agenda (materials (description ex_session2)) = Some a)
   \<and> filter is_agenda_link
        (sendChannelBotCommands ex_live ex_todo ex_project [ex_session2] ''#web-things'' ''RRSAgent'') =
       [Say ''#web-things'' ''Agenda: https://github.com/w3c/tpac2023-breakouts/issues/57'']"
proof -
  have a1: "agenda (materials (description ex_session)) = Some ''https://example.org/agenda''"
    by (simp add: ex_session_def)
  have n1: "''https://example.org/agenda'' \<noteq> [] \<and> ''https://example.org/agenda'' \<notin> set ex_todo"
    by (simp add: ex_todo_def)
  have a2: "\<exists>a \<in> set ex_todo. agenda (materials (description ex_session2)) = Some a"
    by (simp add: ex_session2_def ex_todo_def)
  have r2: "repository ex_session2 = ''w3c/tpac2023-breakouts''"
    by (simp add: ex_session2_def)
  have s2: "show_int (number ex_session2) = ''57''"
    by code_simp
  from agenda_link_selection [OF ex_find_web_things, of ex_todo ex_live ex_project]
    agenda_link_selection [OF ex_find_web_things2, of ex_todo ex_live ex_project]
    ex_find_web_things ex_find_web_things2 a1 n1 a2 r2 s2
  show ?thesis by simp
qed

lemma filter_slideset_slides_cmds:
  "filter is_slideset (slides_cmds todoStrings channel session) =
     slides_cmds todoStrings channel session"
  by (simp add: slides_cmds_def say_def Let_def)

lemma slides_cmds_unfold:
  "slides_cmds todoStrings channel session =
     (case slides (materials (description session)) of
        None \<Rightarrow> []
      | Some l \<Rightarrow> if l \<noteq> [] \<and> l \<notin> set todoStrings
                  then [Say channel (''Slideset: '' @ l)] else [])"
  by (simp add: slides_cmds_def say_def js_truthy_def js_string_def Let_def split: option.splits)

text \<open>
  Claim C8. In the commands sent when RRSAgent joins the channel of a session, a
  slide-set announcement is emitted if and only if the slides link of the session's
  materials is present (neither \<open>undefined\<close> nor the empty string) and is no
  placeholder string; it is then the only one, and it announces that link verbatim.
\<close>

theorem slideset_announcement:
  assumes "find (\<lambda>s. channel = getChannel s) ss = Some session"
  shows "((\<exists>c \<in> set (sendChannelBotCommands cfg todoStrings project ss channel ''RRSAgent'').
             is_slideset c)
          \<longleftrightarrow> (\<exists>l. slides (materials (description session)) = Some l
                   \<and> l \<noteq> [] \<and> l \<notin> set todoStrings))
       \<and> (\<forall>l. slides (materials (description session)) = Some l \<and> l \<noteq> [] \<and> l \<notin> set todoStrings
          \<longrightarrow> filter is_slideset
                (sendChannelBotCommands cfg todoStrings project ss channel ''RRSAgent'') =
              [Say channel (''Slideset: '' @ l)])"
proof -
  let ?cmds = "sendChannelBotCommands cfg todoStrings project ss channel ''RRSAgent''"
  have f: "filter is_slideset ?cmds = slides_cmds todoStrings channel session"
    by (simp add: send_RRSAgent [OF assms] filter_slideset_rrsagent filter_slideset_slides_cmds)
  have "(\<exists>c \<in> set ?cmds. is_slideset c) \<longleftrightarrow> filter is_slideset ?cmds \<noteq> []"
    by (simp add: filter_empty_conv)
  then show ?thesis
    unfolding f
    by (cases "slides (materials (description session))") (auto simp: slides_cmds_unfold)
qed

text \<open>
  Claim C9. The commands sent when RRSAgent joins the channel of a session contain
  exactly one log-visibility command; it says \<open>member\<close> when the attendance field of
  the session's description equals \<open>restricted\<close>, and \<open>public\<close> in every other
  case (also when the field is \<open>undefined\<close>).
\<close>

theorem log_visibility:
  assumes "find (\<lambda>s. channel = getChannel s) ss = Some session"
  shows "filter is_make_logs
           (sendChannelBotCommands cfg todoStrings project ss channel ''RRSAgent'') =
         [Say channel (''RRSAgent, make logs ''
            @ (if attendance (description session) = Some ''restricted''
               then ''member'' else ''public''))]"
  by (simp add: send_RRSAgent [OF assms] filter_make_logs_rrsagent logs_visibility_def)

lemma is_topic_simps [simp]:
  "is_topic (Topic channel topic) = True"
  "is_topic (Invite name channel) = False"
  "is_topic (Say channel msg) = False"
  "is_topic (Part channel) = False"
  "is_topic (Join channel) = False"
  by (simp_all add: is_topic_def)

lemma is_invite_simps [simp]:
  "is_invite (Topic channel topic) = False"
  "is_invite (Invite name channel) = True"
  "is_invite (Say channel msg) = False"
  "is_invite (Part channel) = False"
  "is_invite (Join channel) = False"
  by (simp_all add: is_invite_def)

lemma is_draft_minutes_simps [simp]:
  "is_draft_minutes (Topic channel topic) = False"
  "is_draft_minutes (Invite name channel) = False"
  "is_draft_minutes (Say channel msg) = (msg = ''RRSAgent, draft minutes'')"
  "is_draft_minutes (Part channel) = False"
  "is_draft_minutes (Join channel) = False"
  by (simp_all add: is_draft_minutes_def)

lemma is_bye_simps [simp]:
  "is_bye (Topic channel topic) = False"
  "is_bye (Invite name channel) = False"
  "is_bye (Say channel msg) = (msg = ''RRSAgent, bye'' \<or> msg = ''Zakim, bye'')"
  "is_bye (Part channel) = False"
  "is_bye (Join channel) = False"
  by (simp_all add: is_bye_def)

text \<open>
  Claim C10. When the driving bot joins the channel of a session and dismiss mode is
  off, exactly one topic command is emitted. When the session's room matches no entry
  of the project's room list, the topic reads \<open>TPAC breakout: <title> - <slot>\<close>,
  with no room label; when the room is found, it reads
  \<open>TPAC breakout: <title> - <room label> - <slot>\<close>.
\<close>

theorem topic_room_label:
  assumes "find (\<lambda>s. channel = getChannel s) ss = Some session"
    and "\<not> dismissBots cfg"
  shows "((\<forall>r \<in> set (rooms project). Some (room_name r) \<noteq> room session)
          \<longrightarrow> filter is_topic (sendChannelBotCommands cfg todoStrings project ss channel botName) =
              [Topic channel (''TPAC breakout: '' @ title session @ '' - ''
                                @ js_string (slot session))])
       \<and> (\<forall>r. find (\<lambda>r. Some (room_name r) = room session) (rooms project) = Some r
          \<longrightarrow> filter is_topic (sendChannelBotCommands cfg todoStrings project ss channel botName) =
              [Topic channel (''TPAC breakout: '' @ title session @ '' - '' @ room_label r
                                @ '' - '' @ js_string (slot session))])"
proof -
  have none: "find (\<lambda>r. Some (room_name r) = room session) (rooms project) = None"
    if "\<forall>r \<in> set (rooms project). Some (room_name r) \<noteq> room session"
    using that by (simp add: find_None_iff)
  show ?thesis
    unfolding send_botName_setup [OF assms]
    by (auto simp: topic_text_def roomLabel_def none)
qed

theorem slideset_announcement_witness:
  "find (\<lambda>s. ''#web-things'' = getChannel s) [ex_session] = Some ex_session
   \<and> slides (materials (description ex_session)) = Some ''https://example.org/slides''
   \<and> ''https://example.org/slides'' \<noteq> [] \<and> ''https://example.org/slides'' \<notin> set ex_todo
   \<and> (\<exists>c \<in> set (sendChannelBotCommands ex_live ex_todo ex_project [ex_session]
                    ''#web-things'' ''RRSAgent''). is_slideset c)
   \<and> filter is_slideset
        (sendChannelBotCommands ex_live ex_todo ex_project [ex_session] ''#web-things'' ''RRSAgent'') =
       [Say ''#web-things'' ''Slideset: https://example.org/slides'']
   \<and> find (\<lambda>s. ''#maps'' = getChannel s) [ex_session3] = Some ex_session3
   \<and> slides (materials (description ex_session3)) = Some ''TBD'' \<and> ''TBD'' \<in> set ex_todo
   \<and> \<not> (\<exists>c \<in> set (sendChannelBotCommands ex_live ex_todo ex_project [ex_session3]
                      ''#maps'' ''RRSAgent''). is_slideset c)"
proof -
  have s1: "slides (materials (description ex_session)) = Some ''https://example.org/slides''"
    by (simp add: ex_session_def)
  have n1: "''https://example.org/slides'' \<noteq> [] \<and> ''https://example.org/slides'' \<notin> set ex_todo"
    by (simp add: ex_todo_def)
  have s3: "slides (materials (description ex_session3)) = Some ''TBD'' \<and> ''TBD'' \<in> set ex_todo"
    by (simp add: ex_session3_def ex_todo_def)
  from slideset_announcement [OF ex_find_web_things, of ex_live ex_todo ex_project]
    slideset_announcement [OF ex_find_maps, of ex_live ex_todo ex_project]
    ex_find_web_things ex_find_maps s1 n1 s3
  show ?thesis by simp
qed

theorem log_visibility_witness:
  "find (\<lambda>s. ''#web-things'' = getChannel s) [ex_session] = Some ex_session
   \<and> attendance (description ex_session) = Some ''restricted''
   \<and> filter is_make_logs
        (sendChannelBotCommands ex_live ex_todo ex_project [ex_session] ''#web-things'' ''RRSAgent'') =
       [Say ''#web-things'' ''RRSAgent, make logs member'']
   \<and> find (\<lambda>s. ''#web-things'' = getChannel s) [ex_session2] = Some ex_session2
   \<and> attendance (description ex_session2) = Some ''open''
   \<and> filter is_make_logs
        (sendChannelBotCommands ex_live ex_todo ex_project [ex_session2] ''#web-things'' ''RRSAgent'') =
       [Say ''#web-things'' ''RRSAgent, make logs public'']"
proof -
  have a1: "attendance (description ex_session) = Some ''restricted''"
    by (simp add: ex_session_def)
  have a2: "attendance (description ex_session2) = Some ''open''"
    by (simp add: ex_session2_def)
  from log_visibility [OF ex_find_web_things, of ex_live ex_todo ex_project]
    log_visibility [OF ex_find_web_things2, of ex_live ex_todo ex_project]
    ex_find_web_things ex_find_web_things2 a1 a2
  show ?thesis by simp
qed

lemma ex_not_dismiss: "\<not> dismissBots ex_live"
  by (simp add: ex_live_def)

theorem topic_room_label_witness:
  "find (\<lambda>s. ''#web-things'' = getChannel s) [ex_session2] = Some ex_session2
   \<and> \<not> dismissBots ex_live
   \<and> \<not> (\<exists>r \<in> set (rooms ex_project). Some (room_name r) = room ex_session2)
   \<and> filter is_topic
        (sendChannelBotCommands ex_live ex_todo ex_project [ex_session2] ''#web-things'' botName) =
       [Topic ''#web-things'' ''TPAC breakout: Web Things, continued - 9:30'']
   \<and> find (\<lambda>s. ''#web-things'' = getChannel s) [ex_session] = Some ex_session
   \<and> find (\<lambda>r. Some (room_name r) = room ex_session) (rooms ex_project) =
       Some \<lparr>room_name = ''Room A'', room_label = ''Room A (2nd floor)''\<rparr>
   \<and> filter is_topic
        (sendChannelBotCommands ex_live ex_todo ex_project [ex_session] ''#web-things'' botName) =
       [Topic ''#web-things'' ''TPAC breakout: Web Things - Room A (2nd floor) - 14:00'']"
proof -
  have r2: "\<forall>r \<in> set (rooms ex_project). Some (room_name r) \<noteq> room ex_session2"
    by (simp add: ex_project_def ex_session2_def)
  have r1: "find (\<lambda>r. Some (room_name r) = room ex_session) (rooms ex_project) =
       Some \<lparr>room_name = ''Room A'', room_label = ''Room A (2nd floor)''\<rparr>"
    by (simp add: ex_project_def ex_session_def)
  have t2: "title ex_session2 = ''Web Things, continued'' \<and> js_string (slot ex_session2) = ''9:30''"
    by (simp add: ex_session2_def js_string_def)
  have t1: "title ex_session = ''Web Things'' \<and> js_string (slot ex_session) = ''14:00''"
    by (simp add: ex_session_def js_string_def)
  from topic_room_label [OF ex_find_web_things2 ex_not_dismiss, of ex_project ex_todo]
    topic_room_label [OF ex_find_web_things ex_not_dismiss, of ex_project ex_todo]
    ex_find_web_things ex_find_web_things2 ex_not_dismiss r1 r2 t1 t2
  show ?thesis by simp
qed

lemma rrsagent_cmds_kinds:
  "c \<in> set (rrsagent_cmds cfg todoStrings channel session) \<Longrightarrow>
     \<not> is_topic c \<and> \<not> is_invite c \<and> \<not> is_draft_minutes c \<and> \<not> is_bye c"
  by (auto simp: rrsagent_cmds_def say_def bot_part_def agenda_msg_def Let_def
      slides_cmds_unfold split: option.splits if_splits)

lemma botname_cmds_dismiss_kinds:
  "dismissBots cfg \<Longrightarrow> c \<in> set (botname_cmds cfg project channel session) \<Longrightarrow>
     \<not> is_topic c \<and> \<not> is_invite c"
  by (auto simp: botname_cmds_def say_def bot_part_def split: if_splits)

lemma botname_cmds_setup_kinds:
  "\<not> dismissBots cfg \<Longrightarrow> c \<in> set (botname_cmds cfg project channel session) \<Longrightarrow>
     (is_topic c \<or> is_invite c) \<and> \<not> is_draft_minutes c \<and> \<not> is_bye c"
  by (auto simp: botname_cmds_def setTopic_def inviteBot_def)

lemma send_cases:
  "sendChannelBotCommands cfg todoStrings project ss channel nick = [] \<or>
   (\<exists>session. sendChannelBotCommands cfg todoStrings project ss channel nick =
       botname_cmds cfg project channel session) \<or>
   (\<exists>session. sendChannelBotCommands cfg todoStrings project ss channel nick =
       rrsagent_cmds cfg todoStrings channel session)"
  by (auto simp: sendChannelBotCommands_def split: option.splits)

lemma send_dismiss_kinds:
  assumes "dismissBots cfg"
    and "c \<in> set (sendChannelBotCommands cfg todoStrings project ss channel nick)"
  shows "\<not> is_topic c \<and> \<not> is_invite c"
  using send_cases [of cfg todoStrings project ss channel nick] assms
  by (auto dest: rrsagent_cmds_kinds botname_cmds_dismiss_kinds)

lemma send_setup_kinds:
  assumes "\<not> dismissBots cfg"
    and "c \<in> set (sendChannelBotCommands cfg todoStrings project ss channel nick)"
  shows "\<not> is_draft_minutes c \<and> \<not> is_bye c"
  using send_cases [of cfg todoStrings project ss channel nick] assms
  by (auto dest: rrsagent_cmds_kinds botname_cmds_setup_kinds)

lemma send_botName_setup_kinds:
  assumes "\<not> dismissBots cfg"
    and "c \<in> set (sendChannelBotCommands cfg todoStrings project ss channel botName)"
  shows "is_topic c \<or> is_invite c"
  using assms
  by (auto simp: sendChannelBotCommands_def split: option.splits dest: botname_cmds_setup_kinds)

text \<open>
  Claim C4. For every channel, nickname and list of sessions: in dismiss mode the
  commands of the planner, and those of a dry run, contain no topic-setting and no
  invite command; outside dismiss mode they contain no \<open>draft minutes\<close> and no
  \<open>bye\<close> command; and the commands that the driving bot's join triggers in dismiss
  mode are disjoint from those it triggers outside dismiss mode.
\<close>

theorem mode_commands_disjoint:
  "(dismissBots cfg \<longrightarrow>
      (\<forall>c \<in> set (sendChannelBotCommands cfg todoStrings project ss channel nick).
         \<not> is_topic c \<and> \<not> is_invite c)
      \<and> (\<forall>c \<in> set (dry_run cfg todoStrings project ss). \<not> is_topic c \<and> \<not> is_invite c))
   \<and> (\<not> dismissBots cfg \<longrightarrow>
      (\<forall>c \<in> set (sendChannelBotCommands cfg todoStrings project ss channel nick).
         \<not> is_draft_minutes c \<and> \<not> is_bye c)
      \<and> (\<forall>c \<in> set (dry_run cfg todoStrings project ss). \<not> is_draft_minutes c \<and> \<not> is_bye c))
   \<and> (dismissBots cfg \<and> \<not> dismissBots cfg' \<longrightarrow>
      set (sendChannelBotCommands cfg todoStrings project ss channel botName)
        \<inter> set (sendChannelBotCommands cfg' todoStrings' project' ss' channel' botName) = {})"
proof (intro conjI impI ballI)
  fix c
  assume "dismissBots cfg"
    and "c \<in> set (sendChannelBotCommands cfg todoStrings project ss channel nick)"
  then show "\<not> is_topic c" "\<not> is_invite c"
    using send_dismiss_kinds by blast+
next
  fix c
  assume d: "dismissBots cfg" and "c \<in> set (dry_run cfg todoStrings project ss)"
  then obtain ch where
    "c = Join ch \<or> c \<in> set (sendChannelBotCommands cfg todoStrings project ss ch botName)"
    by (auto simp: dry_run_def joinChannel_def)
  with d show "\<not> is_topic c" "\<not> is_invite c"
    using send_dismiss_kinds by auto
next
  fix c
  assume "\<not> dismissBots cfg"
    and "c \<in> set (sendChannelBotCommands cfg todoStrings project ss channel nick)"
  then show "\<not> is_draft_minutes c" "\<not> is_bye c"
    using send_setup_kinds by blast+
next
  fix c
  assume d: "\<not> dismissBots cfg" and "c \<in> set (dry_run cfg todoStrings project ss)"
  then obtain ch nick where
    "c = Join ch \<or> c \<in> set (sendChannelBotCommands cfg todoStrings project ss ch nick)"
    by (auto simp: dry_run_def joinChannel_def)
  with d show "\<not> is_draft_minutes c" "\<not> is_bye c"
    using send_setup_kinds by auto
next
  assume "dismissBots cfg \<and> \<not> dismissBots cfg'"
  then show "set (sendChannelBotCommands cfg todoStrings project ss channel botName)
        \<inter> set (sendChannelBotCommands cfg' todoStrings' project' ss' channel' botName) = {}"
    using send_dismiss_kinds send_botName_setup_kinds by blast
qed

theorem mode_commands_disjoint_witness:
  "dismissBots ex_dismiss \<and> \<not> dismissBots ex_live
   \<and> sendChannelBotCommands ex_dismiss ex_todo ex_project [ex_session] ''#web-things'' botName =
       [Say ''#web-things'' ''RRSAgent, draft minutes'',
        Say ''#web-things'' ''RRSAgent, bye'',
        Say ''#web-things'' ''Zakim, bye'',
        Part ''#web-things'']
   \<and> \<not> (\<exists>c \<in> set (sendChannelBotCommands ex_dismiss ex_todo ex_project [ex_session]
                      ''#web-things'' botName). is_topic c \<or> is_invite c)
   \<and> \<not> (\<exists>c \<in> set (dry_run ex_dismiss ex_todo ex_project [ex_session]).
            is_topic c \<or> is_invite c)
   \<and> \<not> (\<exists>c \<in> set (sendChannelBotCommands ex_live ex_todo ex_project [ex_session]
                      ''#web-things'' ''RRSAgent''). is_draft_minutes c \<or> is_bye c)
   \<and> \<not> (\<exists>c \<in> set (dry_run ex_live ex_todo ex_project [ex_session]).
            is_draft_minutes c \<or> is_bye c)
   \<and> set (sendChannelBotCommands ex_dismiss ex_todo ex_project [ex_session] ''#web-things'' botName)
        \<inter> set (sendChannelBotCommands ex_live ex_todo ex_project [ex_session] ''#web-things'' botName)
       = {}"
proof -
  have d: "dismissBots ex_dismiss" "\<not> onlyCommands ex_dismiss"
    by (simp_all add: ex_dismiss_def)
  have l: "sendChannelBotCommands ex_dismiss ex_todo ex_project [ex_session] ''#web-things'' botName =
       [Say ''#web-things'' ''RRSAgent, draft minutes'',
        Say ''#web-things'' ''RRSAgent, bye'',
        Say ''#web-things'' ''Zakim, bye'',
        Part ''#web-things'']"
    by (simp add: send_botName [OF ex_find_web_things] botname_cmds_def say_def bot_part_def d)
  from mode_commands_disjoint [of ex_dismiss ex_todo ex_project "[ex_session]" "''#web-things''"
      botName ex_live ex_todo ex_project "[ex_session]" "''#web-things''"]
    mode_commands_disjoint [of ex_live ex_todo ex_project "[ex_session]" "''#web-things''"
      "''RRSAgent''" ex_live ex_todo ex_project "[ex_session]" "''#web-things''"]
    d ex_not_dismiss
  have "\<not> (\<exists>c \<in> set (sendChannelBotCommands ex_dismiss ex_todo ex_project [ex_session]
                      ''#web-things'' botName). is_topic c \<or> is_invite c)"
    and "\<not> (\<exists>c \<in> set (dry_run ex_dismiss ex_todo ex_project [ex_session]).
            is_topic c \<or> is_invite c)"
    and "\<not> (\<exists>c \<in> set (sendChannelBotCommands ex_live ex_todo ex_project [ex_session]
                      ''#web-things'' ''RRSAgent''). is_draft_minutes c \<or> is_bye c)"
    and "\<not> (\<exists>c \<in> set (dry_run ex_live ex_todo ex_project [ex_session]).
            is_draft_minutes c \<or> is_bye c)"
    and "set (sendChannelBotCommands ex_dismiss ex_todo ex_project [ex_session] ''#web-things'' botName)
        \<inter> set (sendChannelBotCommands ex_live ex_todo ex_project [ex_session] ''#web-things'' botName)
       = {}"
    by blast+
  with d ex_not_dismiss l show ?thesis
    by blast
qed

section \<open>Properties of the live run\<close>


text \<open>
  Claim C6. An error of the IRC client whose command is \<open>err_useronchannel\<close>, carrying
  a nickname as \<open>args[1]\<close> and a channel as \<open>args[2]\<close>, is handled exactly as the
  join of that nickname on that channel, and the listener returns normally. Any other
  error is thrown again: the step fails with that error, and so does the run.
\<close>

theorem useronchannel_replays_join:
  "(err_command err = ''err_useronchannel''
      \<and> js_index (err_args err) 1 = Some nick \<and> js_index (err_args err) 2 = Some channel
    \<longrightarrow> step cfg todoStrings project (ErrorEvent err) st =
          step cfg todoStrings project (JoinEvent channel nick) st
        \<and> (\<exists>st'. step cfg todoStrings project (ErrorEvent err) st = Inr st'))
   \<and> (err_command err \<noteq> ''err_useronchannel''
    \<longrightarrow> step cfg todoStrings project (ErrorEvent err) st = Inl (Thrown err)
        \<and> run cfg todoStrings project (ErrorEvent err # es) st = Inl (Thrown err))"
  by (simp add: on_error_def on_join_def)

theorem useronchannel_replays_join_witness:
  "err_command ex_err_on_channel = ''err_useronchannel''
   \<and> js_index (err_args ex_err_on_channel) 1 = Some ''RRSAgent''
   \<and> js_index (err_args ex_err_on_channel) 2 = Some ''#maps''
   \<and> step ex_live ex_todo ex_project (ErrorEvent ex_err_on_channel) ex_state =
       step ex_live ex_todo ex_project (JoinEvent ''#maps'' ''RRSAgent'') ex_state
   \<and> (\<exists>st'. step ex_live ex_todo ex_project (ErrorEvent ex_err_on_channel) ex_state = Inr st')
   \<and> err_command ex_err_other \<noteq> ''err_useronchannel''
   \<and> step ex_live ex_todo ex_project (ErrorEvent ex_err_other) ex_state = Inl (Thrown ex_err_other)
   \<and> run ex_live ex_todo ex_project [ErrorEvent ex_err_other, JoinEvent ''#maps'' ''RRSAgent'']
        ex_state = Inl (Thrown ex_err_other)"
proof -
  have a: "err_command ex_err_on_channel = ''err_useronchannel''"
    "js_index (err_args ex_err_on_channel) 1 = Some ''RRSAgent''"
    "js_index (err_args ex_err_on_channel) 2 = Some ''#maps''"
    by (simp_all add: ex_err_on_channel_def js_index_def)
  have b: "err_command ex_err_other \<noteq> ''err_useronchannel''"
    by (simp add: ex_err_other_def)
  from useronchannel_replays_join [of ex_err_on_channel "''RRSAgent''" "''#maps''"
      ex_live ex_todo ex_project ex_state]
    useronchannel_replays_join [of ex_err_other _ _ ex_live ex_todo ex_project ex_state
      "[JoinEvent ''#maps'' ''RRSAgent'']"]
    a b
  show ?thesis by (simp add: on_join_def)
qed


lemma length_mark_done [simp]: "length (mark_done channel ss) = length ss"
  by (induction ss) auto

lemma mark_done_nth:
  "i < length ss \<Longrightarrow> is_done (mark_done channel ss ! i) \<noteq> is_done (ss ! i) \<Longrightarrow>
     getChannel (ss ! i) = channel \<and> \<not> is_done (ss ! i) \<and> is_done (mark_done channel ss ! i)"
proof (induction ss arbitrary: i)
  case Nil
  then show ?case by simp
next
  case (Cons s ss)
  then show ?case
    by (cases i) (auto split: if_splits)
qed

lemma step_length_reps:
  "step cfg todoStrings project e st = Inr st' \<Longrightarrow> length (reps st') = length (reps st)"
  by (cases e)
     (auto simp: on_registered_def on_join_def on_error_def on_part_def Let_def
           split: if_splits option.splits prod.splits)

lemma step_reps_cases:
  "step cfg todoStrings project e st = Inr st' \<Longrightarrow>
     reps st' = reps st \<or>
     (\<exists>channel. e = PartEvent channel botName \<and> reps st' = mark_done channel (reps st))"
  by (cases e)
     (auto simp: on_registered_def on_join_def on_error_def on_part_def Let_def
           split: if_splits option.splits prod.splits)

lemma step_done_change:
  assumes "step cfg todoStrings project e st = Inr st'"
    and "i < length (reps st)"
    and "is_done (reps st' ! i) \<noteq> is_done (reps st ! i)"
  shows "e = PartEvent (getChannel (reps st ! i)) botName
         \<and> \<not> is_done (reps st ! i) \<and> is_done (reps st' ! i)"
proof -
  from step_reps_cases [OF assms(1)] assms(3)
  obtain channel where e: "e = PartEvent channel botName"
    and r: "reps st' = mark_done channel (reps st)"
    by auto
  from mark_done_nth [OF assms(2), of channel] assms(3) r
  have "getChannel (reps st ! i) = channel \<and> \<not> is_done (reps st ! i)
        \<and> is_done (mark_done channel (reps st) ! i)"
    by simp
  with e r show ?thesis by simp
qed

lemma step_done_mono:
  assumes "step cfg todoStrings project e st = Inr st'"
    and "i < length (reps st)"
    and "is_done (reps st ! i)"
  shows "is_done (reps st' ! i)"
  using step_done_change [OF assms(1,2)] assms(3) by blast

lemma states_Cons: "\<exists>sts. states cfg todoStrings project es st = st # sts"
  by (cases es) auto

lemma done_changes_Cons2:
  "done_changes i (a # b # sts) =
     (if is_done (reps a ! i) \<noteq> is_done (reps b ! i) then 1 else 0) + done_changes i (b # sts)"
  by (simp add: done_changes_def)

lemma done_changes_single [simp]: "done_changes i [a] = 0"
  by (simp add: done_changes_def)

lemma done_changes_after_done:
  "i < length (reps st) \<Longrightarrow> is_done (reps st ! i) \<Longrightarrow>
     done_changes i (states cfg todoStrings project es st) = 0"
proof (induction es arbitrary: st)
  case Nil
  then show ?case by simp
next
  case (Cons e es)
  show ?case
  proof (cases "step cfg todoStrings project e st")
    case (Inl err)
    then show ?thesis by simp
  next
    case (Inr st')
    obtain sts where sts: "states cfg todoStrings project es st' = st' # sts"
      using states_Cons by blast
    have d: "is_done (reps st' ! i)"
      using step_done_mono [OF Inr Cons.prems] .
    have l: "i < length (reps st')"
      using step_length_reps [OF Inr] Cons.prems(1) by simp
    have "done_changes i (st' # sts) = 0"
      using Cons.IH [OF l d] sts by simp
    with Inr sts d Cons.prems(2) show ?thesis
      by (simp add: done_changes_Cons2)
  qed
qed

lemma done_changes_le_1:
  "i < length (reps st) \<Longrightarrow> done_changes i (states cfg todoStrings project es st) \<le> 1"
proof (induction es arbitrary: st)
  case Nil
  then show ?case by simp
next
  case (Cons e es)
  show ?case
  proof (cases "step cfg todoStrings project e st")
    case (Inl err)
    then show ?thesis by simp
  next
    case (Inr st')
    obtain sts where sts: "states cfg todoStrings project es st' = st' # sts"
      using states_Cons by blast
    have l: "i < length (reps st')"
      using step_length_reps [OF Inr] Cons.prems(1) by simp
    show ?thesis
    proof (cases "is_done (reps st' ! i) \<noteq> is_done (reps st ! i)")
      case True
      then have "is_done (reps st' ! i)"
        using step_done_change [OF Inr Cons.prems] by blast
      then have "done_changes i (st' # sts) = 0"
        using done_changes_after_done [OF l, of cfg todoStrings project es] sts by simp
      with Inr sts show ?thesis
        by (simp add: done_changes_Cons2)
    next
      case False
      with Cons.IH [OF l] Inr sts show ?thesis
        by (simp add: done_changes_Cons2)
    qed
  qed
qed

text \<open>
  Claim C7. A part event for a nickname other than the driving bot's, or for a channel
  with no representative session, leaves the state unchanged. A step changes the
  \<open>done\<close> flag of a session only if its event is the part of the driving bot on
  that session's channel, and the change is from unset to set. Along any sequence of
  events the flag of a session changes at most once.
\<close>

theorem done_flag:
  "(nick \<noteq> botName \<or> find (\<lambda>s. channel = getChannel s) (reps st) = None
      \<longrightarrow> step cfg todoStrings project (PartEvent channel nick) st = Inr st)
   \<and> (step cfg todoStrings project e st = Inr st' \<and> i < length (reps st)
        \<and> is_done (reps st' ! i) \<noteq> is_done (reps st ! i)
      \<longrightarrow> e = PartEvent (getChannel (reps st ! i)) botName
          \<and> \<not> is_done (reps st ! i) \<and> is_done (reps st' ! i))
   \<and> (i < length (reps st) \<longrightarrow> done_changes i (states cfg todoStrings project es st) \<le> 1)"
  using step_done_change [of cfg todoStrings project e st st' i]
    done_changes_le_1 [of i st cfg todoStrings project es]
  by (auto simp: on_part_def)

lemma ex_part_maps:
  "step ex_live ex_todo ex_project (PartEvent ''#maps'' botName) ex_state =
     Inr \<lparr>reps = [ex_session2, ex_session3\<lparr>is_done := True\<rparr>], performed = []\<rparr>"
  by (simp add: on_part_def ex_state_def getChannel_def ex_session2_def ex_session3_def)

theorem done_flag_witness:
  "''RRSAgent'' \<noteq> botName
   \<and> step ex_live ex_todo ex_project (PartEvent ''#maps'' ''RRSAgent'') ex_state = Inr ex_state
   \<and> find (\<lambda>s. ''#nowhere'' = getChannel s) (reps ex_state) = None
   \<and> step ex_live ex_todo ex_project (PartEvent ''#nowhere'' botName) ex_state = Inr ex_state
   \<and> step ex_live ex_todo ex_project (PartEvent ''#maps'' botName) ex_state =
       Inr \<lparr>reps = [ex_session2, ex_session3\<lparr>is_done := True\<rparr>], performed = []\<rparr>
   \<and> 1 < length (reps ex_state)
   \<and> is_done ([ex_session2, ex_session3\<lparr>is_done := True\<rparr>] ! 1) \<noteq> is_done (reps ex_state ! 1)
   \<and> PartEvent ''#maps'' botName = PartEvent (getChannel (reps ex_state ! 1)) botName
   \<and> done_changes 1 (states ex_live ex_todo ex_project
        [PartEvent ''#maps'' ''RRSAgent'', PartEvent ''#maps'' botName,
         JoinEvent ''#maps'' ''RRSAgent'', PartEvent ''#maps'' botName] ex_state) \<le> 1"
proof -
  have n: "''RRSAgent'' \<noteq> botName"
    by (simp add: botName_def)
  have f: "find (\<lambda>s. ''#nowhere'' = getChannel s) (reps ex_state) = None"
    by (simp add: ex_state_def getChannel_def ex_session2_def ex_session3_def)
  have l: "1 < length (reps ex_state)"
    by (simp add: ex_state_def)
  have c: "is_done ([ex_session2, ex_session3\<lparr>is_done := True\<rparr>] ! 1) \<noteq> is_done (reps ex_state ! 1)"
    by (simp add: ex_state_def ex_session3_def)
  note T = done_flag [of "''RRSAgent''" "''#maps''" ex_state ex_live ex_todo ex_project
      "PartEvent ''#maps'' botName"
      "\<lparr>reps = [ex_session2, ex_session3\<lparr>is_done := True\<rparr>], performed = []\<rparr>" 1
      "[PartEvent ''#maps'' ''RRSAgent'', PartEvent ''#maps'' botName,
         JoinEvent ''#maps'' ''RRSAgent'', PartEvent ''#maps'' botName]"]
  have r: "reps \<lparr>reps = [ex_session2, ex_session3\<lparr>is_done := True\<rparr>], performed = []\<rparr>
             = [ex_session2, ex_session3\<lparr>is_done := True\<rparr>]"
    by simp
  from T n
  have a: "step ex_live ex_todo ex_project (PartEvent ''#maps'' ''RRSAgent'') ex_state = Inr ex_state"
    by blast
  from T ex_part_maps l c
  have b: "PartEvent ''#maps'' botName = PartEvent (getChannel (reps ex_state ! 1)) botName"
    unfolding r by blast
  from T l
  have d: "done_changes 1 (states ex_live ex_todo ex_project
        [PartEvent ''#maps'' ''RRSAgent'', PartEvent ''#maps'' botName,
         JoinEvent ''#maps'' ''RRSAgent'', PartEvent ''#maps'' botName] ex_state) \<le> 1"
    by blast
  from done_flag [of botName "''#nowhere''" ex_state ex_live ex_todo ex_project] f
  have e: "step ex_live ex_todo ex_project (PartEvent ''#nowhere'' botName) ex_state = Inr ex_state"
    by blast
  from n a f e ex_part_maps l c b d show ?thesis
    by blast
qed

text \<open>On that sequence of events the flag of the second session is set once.\<close>

lemma ex_done_changes:
  "done_changes 1 (states ex_live ex_todo ex_project
        [PartEvent ''#maps'' ''RRSAgent'', PartEvent ''#maps'' botName,
         JoinEvent ''#maps'' ''RRSAgent'', PartEvent ''#maps'' botName] ex_state) = 1"
  by (simp add: done_changes_def on_part_def on_join_def ex_state_def getChannel_def
      ex_session2_def ex_session3_def botName_def sendChannelBotCommands_def)

section \<open>Properties of the retrieval of the sessions\<close>


lemma select_sessions_slot:
  "s \<in> set (select_sessions target_number target_slot project) \<Longrightarrow> js_truthy (slot s)"
  by (simp add: select_sessions_def)

lemma select_sessions_number:
  "given_number target_number \<Longrightarrow>
   s \<in> set (select_sessions target_number target_slot project) \<Longrightarrow>
   Some (number s) = target_number"
  by (simp add: select_sessions_def)

lemma hd_select_sessions_slot:
  "select_sessions target_number target_slot project \<noteq> [] \<Longrightarrow>
   js_truthy (slot (hd (select_sessions target_number target_slot project)))"
  using select_sessions_slot [of "hd (select_sessions target_number target_slot project)"
      target_number target_slot project]
  by simp

lemma valid_sessions_unfold:
  "valid_sessions validateSession project ss =
     filter (\<lambda>s. \<not> (\<exists>f \<in> set (validateSession (number s) project). severity f = ''error'')) ss"
  by (simp add: valid_sessions_def sessionErrors_def filter_empty_conv)

lemma valid_sessions_target_empty:
  assumes "\<exists>f \<in> set (validateSession n project). severity f = ''error''"
    and "n \<noteq> 0"
  shows "valid_sessions validateSession project (select_sessions (Some n) target_slot project) = []"
proof -
  have "number s = n" if "s \<in> set (select_sessions (Some n) target_slot project)" for s
    using select_sessions_number [OF _ that] assms(2) by (simp add: given_number_def)
  with assms(1) show ?thesis
    by (auto simp: valid_sessions_unfold filter_empty_conv)
qed

text \<open>
  Claim C5. When the run targets the session number \<open>n\<close> (a number other than 0,
  which the test \<open>if (number)\<close> reads as no number) and the validator reports a
  finding of severity \<open>error\<close> for \<open>n\<close>, the run fails with an error whose message
  starts with \<open>Session n\<close>; when the session is among those selected (it has a slot,
  and the slot starts with the requested one), the message is
  \<open>Session n contains errors that need fixing\<close>. When the run targets all sessions,
  it does not fail: it returns the selected sessions without those that have an error
  finding, and the console lines only count and list the sessions found and the valid
  ones.
\<close>

theorem validation_errors:
  "(n \<noteq> 0 \<and> (\<exists>f \<in> set (validateSession n project). severity f = ''error'')
      \<longrightarrow> (\<exists>msg. snd (retrieve_sessions e validateSession (Some n) target_slot (Some project)) =
                   Inl (Error (''Session '' @ show_int n @ '' '' @ msg)))
        \<and> (select_sessions (Some n) target_slot project \<noteq> []
            \<longrightarrow> snd (retrieve_sessions e validateSession (Some n) target_slot (Some project)) =
                  Inl (Error (''Session '' @ show_int n @ '' contains errors that need fixing''))))
   \<and> retrieve_sessions e validateSession None target_slot (Some project) =
       ([[], ''Retrieve project '' @ project_id e @ ''...'',
         found_line target_slot (select_sessions None target_slot project),
         valid_line (filter (\<lambda>s. \<not> (\<exists>f \<in> set (validateSession (number s) project).
                                        severity f = ''error''))
                       (select_sessions None target_slot project)),
         ''Retrieve project '' @ project_id e @ '' and session(s)... done''],
        Inr (filter (\<lambda>s. \<not> (\<exists>f \<in> set (validateSession (number s) project).
                                 severity f = ''error''))
               (select_sessions None target_slot project)))"
proof (intro conjI impI)
  assume a: "n \<noteq> 0 \<and> (\<exists>f \<in> set (validateSession n project). severity f = ''error'')"
  then have g: "given_number (Some n)"
    by (simp add: given_number_def)
  from a have v: "valid_sessions validateSession project (select_sessions (Some n) target_slot project) = []"
    using valid_sessions_target_empty by blast
  show "\<exists>msg. snd (retrieve_sessions e validateSession (Some n) target_slot (Some project)) =
                   Inl (Error (''Session '' @ show_int n @ '' '' @ msg))"
    using g v hd_select_sessions_slot [of "Some n" target_slot project]
    by (auto simp: retrieve_sessions_def Let_def)
  show "snd (retrieve_sessions e validateSession (Some n) target_slot (Some project)) =
                  Inl (Error (''Session '' @ show_int n @ '' contains errors that need fixing''))"
    if "select_sessions (Some n) target_slot project \<noteq> []"
    using g v that hd_select_sessions_slot [OF that]
    by (simp add: retrieve_sessions_def Let_def)
next
  show "retrieve_sessions e validateSession None target_slot (Some project) =
       ([[], ''Retrieve project '' @ project_id e @ ''...'',
         found_line target_slot (select_sessions None target_slot project),
         valid_line (filter (\<lambda>s. \<not> (\<exists>f \<in> set (validateSession (number s) project).
                                        severity f = ''error''))
                       (select_sessions None target_slot project)),
         ''Retrieve project '' @ project_id e @ '' and session(s)... done''],
        Inr (filter (\<lambda>s. \<not> (\<exists>f \<in> set (validateSession (number s) project).
                                 severity f = ''error''))
               (select_sessions None target_slot project)))"
    by (simp add: retrieve_sessions_def Let_def given_number_def valid_sessions_unfold)
qed

lemma ex_select_all: "select_sessions None None ex_project = [ex_session3, ex_session, ex_session2]"
  by (simp add: select_sessions_def ex_project_def given_number_def js_truthy_def
      ex_session_def ex_session2_def ex_session3_def)

lemma ex_select_57: "select_sessions (Some 57) None ex_project = [ex_session2]"
  by (simp add: select_sessions_def ex_project_def given_number_def js_truthy_def
      ex_session_def ex_session2_def ex_session3_def)

lemma ex_found_line: "found_line None [ex_session3, ex_session, ex_session2] =
   ''- found 3 sessions assigned to slots: 8, 42, 57''"
  by code_simp

lemma ex_valid_line: "valid_line [ex_session3, ex_session] =
   ''- found 2 valid sessions among them: 8, 42''"
  by code_simp

lemma ex_show_57: "show_int 57 = ''57''"
  by code_simp

theorem validation_errors_witness:
  "(57::int) \<noteq> 0 \<and> (\<exists>f \<in> set (ex_validate 57 ex_project). severity f = ''error'')
   \<and> select_sessions (Some 57) None ex_project \<noteq> []
   \<and> snd (retrieve_sessions ex_env ex_validate (Some 57) None (Some ex_project)) =
       Inl (Error ''Session 57 contains errors that need fixing'')
   \<and> retrieve_sessions ex_env ex_validate None None (Some ex_project) =
       ([[], ''Retrieve project w3c/57...'',
         ''- found 3 sessions assigned to slots: 8, 42, 57'',
         ''- found 2 valid sessions among them: 8, 42'',
         ''Retrieve project w3c/57 and session(s)... done''],
        Inr [ex_session3, ex_session])"
proof -
  have v: "\<exists>f \<in> set (ex_validate 57 ex_project). severity f = ''error''"
    by (simp add: ex_validate_def)
  have s: "select_sessions (Some 57) None ex_project \<noteq> []"
    by (simp add: ex_select_57)
  have f: "filter (\<lambda>s. \<not> (\<exists>f \<in> set (ex_validate (number s) ex_project). severity f = ''error''))
             [ex_session3, ex_session, ex_session2] = [ex_session3, ex_session]"
    by (simp add: ex_validate_def ex_session_def ex_session2_def ex_session3_def)
  have p: "project_id ex_env = ''w3c/57''"
    by (simp add: project_id_def ex_env_def)
  note T = validation_errors [of 57 ex_validate ex_project ex_env None]
  from T v s have a: "snd (retrieve_sessions ex_env ex_validate (Some 57) None (Some ex_project)) =
       Inl (Error ''Session 57 contains errors that need fixing'')"
    by (simp add: ex_show_57)
  from T [unfolded ex_select_all f p ex_found_line ex_valid_line]
  have b: "retrieve_sessions ex_env ex_validate None None (Some ex_project) =
       ([[], ''Retrieve project w3c/57...'',
         ''- found 3 sessions assigned to slots: 8, 42, 57'',
         ''- found 2 valid sessions among them: 8, 42'',
         ''Retrieve project w3c/57 and session(s)... done''],
        Inr [ex_session3, ex_session])"
    by simp
  from v s a b show ?thesis by simp
qed

section \<open>Properties of the channel grouping\<close>


lemma findIndex_ge: "- 1 \<le> findIndex P xs"
  by (induction xs) (auto simp: Let_def)

lemma findIndex_none: "findIndex P xs = - 1 \<longleftrightarrow> \<not> (\<exists>x \<in> set xs. P x)"
proof (induction xs)
  case Nil
  show ?case by simp
next
  case (Cons x xs)
  with findIndex_ge [of P xs] show ?case
    by (auto simp: Let_def)
qed

lemma findIndex_found:
  "\<exists>x \<in> set xs. P x \<Longrightarrow>
     0 \<le> findIndex P xs \<and> nat (findIndex P xs) < length xs
     \<and> P (xs ! nat (findIndex P xs)) \<and> (\<forall>j < nat (findIndex P xs). \<not> P (xs ! j))"
proof (induction xs)
  case Nil
  then show ?case by simp
next
  case (Cons x xs)
  show ?case
  proof (cases "P x")
    case True
    then show ?thesis by simp
  next
    case False
    with Cons.prems have ex: "\<exists>x \<in> set xs. P x" by simp
    then have n: "\<not> findIndex P xs < 0"
      using findIndex_none [of P xs] findIndex_ge [of P xs] by linarith
    from Cons.IH [OF ex] have ih: "0 \<le> findIndex P xs" "nat (findIndex P xs) < length xs"
      "P (xs ! nat (findIndex P xs))" "\<forall>j < nat (findIndex P xs). \<not> P (xs ! j)"
      by simp_all
    have s: "nat (findIndex P xs + 1) = Suc (nat (findIndex P xs))"
      using ih(1) by simp
    from False n ih show ?thesis
      by (auto simp: Let_def s less_Suc_eq_0_disj)
  qed
qed

lemma sort_key_sorted_append:
  "sort_key k (sort_key k xs @ ys) = sort_key k (xs @ ys)"
proof (rule properties_for_sort_key [symmetric])
  show "mset (sort_key k (sort_key k xs @ ys)) = mset (xs @ ys)"
    by simp
  show "filter (\<lambda>x. k y = k x) (sort_key k (sort_key k xs @ ys)) = filter (\<lambda>x. k y = k x) (xs @ ys)"
    for y
  proof -
    have e: "(\<lambda>x. k y = k x) = (\<lambda>x. k x = k y)"
      by auto
    show ?thesis
      unfolding e by (simp add: sort_key_stable)
  qed
  show "sorted (map k (sort_key k (sort_key k xs @ ys)))"
    by simp
qed

text \<open>A successful iteration stores the extended group; a failed one met an inherited name.\<close>

lemma add_session_Inr:
  "add_session project channels s = Inr channels' \<Longrightarrow>
     channels' = AList.update (getChannel s)
        (sort_key (slot_index project)
           ((case map_of channels (getChannel s) of None \<Rightarrow> [] | Some g \<Rightarrow> g) @ [s]))
        channels"
  by (auto simp: add_session_def Let_def split: option.splits if_splits)

lemma add_session_Inl:
  "add_session project channels s = Inl err \<Longrightarrow>
     getChannel s \<in> set inherited_properties
     \<and> err = TypeError ''channels[channel].push is not a function''"
  by (auto simp: add_session_def Let_def split: option.splits if_splits)

lemma add_session_proper:
  "getChannel s \<notin> set inherited_properties \<Longrightarrow> \<exists>channels'. add_session project channels s = Inr channels'"
  by (auto simp: add_session_def Let_def split: option.splits)

lemma compute_channels_from_snoc:
  "compute_channels_from project channels (ss @ [s]) =
     (case compute_channels_from project channels ss of
        Inl err \<Rightarrow> Inl err
      | Inr channels' \<Rightarrow> add_session project channels' s)"
  by (induction ss arbitrary: channels) (auto split: sum.splits)

lemma compute_channels_snoc:
  "compute_channels project (ss @ [s]) =
     (case compute_channels project ss of
        Inl err \<Rightarrow> Inl err
      | Inr channels' \<Rightarrow> add_session project channels' s)"
  by (simp add: compute_channels_def compute_channels_from_snoc)

lemma add_session_invariant:
  assumes d: "distinct (map fst channels)"
    and m: "\<And>c. map_of channels c =
        (if c \<in> getChannel ` set ss
         then Some (sort_key (slot_index project) (filter (\<lambda>t. getChannel t = c) ss))
         else None)"
    and a: "add_session project channels s = Inr channels'"
  shows "distinct (map fst channels')
     \<and> (\<forall>c. map_of channels' c =
        (if c \<in> getChannel ` set (ss @ [s])
         then Some (sort_key (slot_index project) (filter (\<lambda>t. getChannel t = c) (ss @ [s])))
         else None))"
proof -
  let ?k = "slot_index project"
  let ?c = "getChannel s"
  have g: "(case map_of channels ?c of None \<Rightarrow> [] | Some g \<Rightarrow> g) =
             sort_key ?k (filter (\<lambda>t. getChannel t = ?c) ss)"
  proof (cases "?c \<in> getChannel ` set ss")
    case True
    then show ?thesis by (simp add: m)
  next
    case False
    then have "\<forall>t \<in> set ss. getChannel t \<noteq> ?c"
      by (metis imageI)
    then have "filter (\<lambda>t. getChannel t = ?c) ss = []"
      by (simp add: filter_empty_conv)
    with False show ?thesis by (simp add: m)
  qed
  have u: "channels' =
             AList.update ?c (sort_key ?k (filter (\<lambda>t. getChannel t = ?c) (ss @ [s]))) channels"
    using add_session_Inr [OF a]
    by (simp add: g sort_key_sorted_append del: sort_key_simps)
  show ?thesis
    unfolding u
    by (auto simp: distinct_update d update_conv' m)
qed

lemma compute_channels_invariant:
  "compute_channels project ss = Inr channels \<Longrightarrow>
   distinct (map fst channels)
   \<and> (\<forall>c. map_of channels c =
        (if c \<in> getChannel ` set ss
         then Some (sort_key (slot_index project) (filter (\<lambda>t. getChannel t = c) ss))
         else None))"
proof (induction ss arbitrary: channels rule: rev_induct)
  case Nil
  then show ?case by (auto simp: compute_channels_def)
next
  case (snoc s ss)
  from snoc.prems obtain channels0 where c0: "compute_channels project ss = Inr channels0"
    and a: "add_session project channels0 s = Inr channels"
    by (auto simp: compute_channels_snoc split: sum.splits)
  from snoc.IH [OF c0] add_session_invariant [of channels0 ss project s channels] a
  show ?case by simp
qed

lemma compute_channels_proper:
  "\<forall>s \<in> set ss. getChannel s \<notin> set inherited_properties \<Longrightarrow>
     \<exists>channels. compute_channels project ss = Inr channels"
proof (induction ss rule: rev_induct)
  case Nil
  show ?case by (simp add: compute_channels_def)
next
  case (snoc s ss)
  then obtain channels0 where "compute_channels project ss = Inr channels0"
    by auto
  moreover from snoc.prems have "getChannel s \<notin> set inherited_properties"
    by simp
  ultimately show ?case
    using add_session_proper [of s project channels0]
    by (simp add: compute_channels_snoc)
qed

text \<open>With a session whose channel is an inherited name, the loop throws.\<close>

lemma compute_channels_throws:
  assumes "\<exists>s \<in> set ss. getChannel s \<in> set inherited_properties"
  shows "compute_channels project ss = Inl (TypeError ''channels[channel].push is not a function'')"
  using assms
proof (induction ss rule: rev_induct)
  case Nil
  then show ?case by simp
next
  case (snoc s ss)
  show ?case
  proof (cases "\<exists>t \<in> set ss. getChannel t \<in> set inherited_properties")
    case True
    with snoc.IH show ?thesis
      by (simp add: compute_channels_snoc)
  next
    case False
    with snoc.prems have i: "getChannel s \<in> set inherited_properties"
      by auto
    from False obtain channels0 where c0: "compute_channels project ss = Inr channels0"
      using compute_channels_proper [of ss project] by auto
    from False i have "getChannel s \<notin> getChannel ` set ss"
      by auto
    with compute_channels_invariant [OF c0] have "map_of channels0 (getChannel s) = None"
      by simp
    with i c0 show ?thesis
      by (simp add: compute_channels_snoc add_session_def)
  qed
qed

lemma group_properties:
  assumes "compute_channels project ss = Inr channels"
    and "map_of channels c = Some g"
  shows "g = sort_key (slot_index project) (filter (\<lambda>t. getChannel t = c) ss)"
    and "g \<noteq> []"
    and "set g = {t \<in> set ss. getChannel t = c}"
    and "sorted (map (slot_index project) g)"
    and "getChannel (hd g) = c"
proof -
  from compute_channels_invariant [OF assms(1)] assms(2)
  have c: "c \<in> getChannel ` set ss"
    and g: "g = sort_key (slot_index project) (filter (\<lambda>t. getChannel t = c) ss)"
    by (simp_all split: if_splits)
  show "g = sort_key (slot_index project) (filter (\<lambda>t. getChannel t = c) ss)"
    by (rule g)
  show s: "set g = {t \<in> set ss. getChannel t = c}"
    by (auto simp: g)
  from c s show n: "g \<noteq> []"
    by auto
  show "sorted (map (slot_index project) g)"
    by (simp add: g)
  from n have "hd g \<in> set g"
    by simp
  with s show "getChannel (hd g) = c"
    by simp
qed

lemma sorted_key_hd_le:
  "sorted (map k g) \<Longrightarrow> t \<in> set g \<Longrightarrow> k (hd g) \<le> (k t :: int)"
  by (cases g) auto

text \<open>\<open>Object.values\<close> permutes the entries.\<close>

lemma object_values_entries:
  "\<exists>entries. object_values kvs = map snd entries \<and> mset entries = mset kvs"
proof -
  let ?A = "\<lambda>kv. array_index (fst kv) \<noteq> None"
  let ?entries = "sort_key (\<lambda>kv. the (array_index (fst kv))) (filter ?A kvs)
                    @ filter (\<lambda>kv. \<not> ?A kv) kvs"
  have "object_values kvs = map snd ?entries"
    by (simp add: object_values_def)
  moreover have "mset ?entries = mset kvs"
    by simp
  ultimately show ?thesis by blast
qed

lemma length_object_values: "length (object_values kvs) = length kvs"
proof -
  obtain entries where "object_values kvs = map snd entries" "mset entries = mset kvs"
    using object_values_entries by blast
  then show ?thesis
    by (metis length_map size_mset)
qed

lemma find_distinct_key:
  "distinct (map f xs) \<Longrightarrow> x \<in> set xs \<Longrightarrow> find (\<lambda>t. f x = f t) xs = Some x"
  by (induction xs) (auto simp: rev_image_eqI)

lemma find_representative:
  assumes cc: "compute_channels project ss = Inr channels"
    and m: "map_of channels c = Some g"
  shows "find (\<lambda>t. c = getChannel t) (representatives channels) = Some (hd g)"
proof -
  have dc: "distinct (map fst channels)"
    using compute_channels_invariant [OF cc] by blast
  obtain entries where ov: "object_values channels = map snd entries"
    and ms: "mset entries = mset channels"
    using object_values_entries by blast
  have se: "set entries = set channels"
    using ms by (rule mset_eq_setD)
  have "mset (map fst entries) = mset (map fst channels)"
    using ms by (metis mset_map)
  then have de: "distinct (map fst entries)"
    using dc by (metis mset_eq_imp_distinct_iff)
  have key: "getChannel (hd (snd kv)) = fst kv" if "kv \<in> set entries" for kv
  proof -
    from that se have "kv \<in> set channels" by simp
    then have "map_of channels (fst kv) = Some (snd kv)"
      using dc by simp
    then show ?thesis by (rule group_properties(5) [OF cc])
  qed
  have r: "representatives channels = map (\<lambda>kv. hd (snd kv)) entries"
    by (simp add: representatives_def ov)
  have "map getChannel (representatives channels) = map fst entries"
    unfolding r using key by simp
  with de have dr: "distinct (map getChannel (representatives channels))"
    by simp
  from m have "(c, g) \<in> set entries"
    using se by (simp add: map_of_SomeD)
  then have "hd g \<in> set (representatives channels)"
    unfolding r by force
  from find_distinct_key [OF dr this] group_properties(5) [OF cc m]
  show ?thesis by simp
qed

lemma group_representative:
  assumes cc: "compute_channels project ss = Inr channels"
    and m: "map_of channels c = Some g"
  shows "g \<noteq> []
         \<and> set g = {t \<in> set ss. getChannel t = c}
         \<and> sorted (map (slot_index project) g)
         \<and> (\<forall>t \<in> set g. slot_index project (hd g) \<le> slot_index project t)
         \<and> find (\<lambda>t. c = getChannel t) (representatives channels) = Some (hd g)
         \<and> sendChannelBotCommands cfg todoStrings project (representatives channels) c nick =
             sendChannelBotCommands cfg todoStrings project [hd g] c nick"
proof (intro conjI)
  show "g \<noteq> []"
    by (rule group_properties(2) [OF cc m])
  show "set g = {t \<in> set ss. getChannel t = c}"
    by (rule group_properties(3) [OF cc m])
  show "sorted (map (slot_index project) g)"
    by (rule group_properties(4) [OF cc m])
  show "\<forall>t \<in> set g. slot_index project (hd g) \<le> slot_index project t"
    using sorted_key_hd_le [OF group_properties(4) [OF cc m]] by blast
  show f: "find (\<lambda>t. c = getChannel t) (representatives channels) = Some (hd g)"
    by (rule find_representative [OF cc m])
  show "sendChannelBotCommands cfg todoStrings project (representatives channels) c nick =
             sendChannelBotCommands cfg todoStrings project [hd g] c nick"
    by (simp add: sendChannelBotCommands_def f group_properties(5) [OF cc m])
qed

lemma slot_index_position:
  "- 1 \<le> slot_index project t
   \<and> (slot_index project t = - 1
        \<longleftrightarrow> \<not> (\<exists>sl \<in> set (slots project). Some (slot_name sl) = slot t))
   \<and> ((\<exists>sl \<in> set (slots project). Some (slot_name sl) = slot t)
        \<longrightarrow> 0 \<le> slot_index project t
          \<and> nat (slot_index project t) < length (slots project)
          \<and> Some (slot_name (slots project ! nat (slot_index project t))) = slot t
          \<and> (\<forall>j < nat (slot_index project t).
                Some (slot_name (slots project ! j)) \<noteq> slot t))"
  using findIndex_found [of "slots project" "\<lambda>sl. Some (slot_name sl) = slot t"]
  by (simp add: slot_index_def findIndex_ge findIndex_none)

text \<open>
  Claim C2. For every list of validated sessions none of whose channel names is the
  name of a property that \<open>channels\<close> inherits (with such a name the loop throws, see
  \<open>compute_channels_throws\<close>), the loop ends normally and \<open>channels\<close> maps each
  channel name of a session to the sessions of that channel, stably sorted by ascending
  slot index, and maps no other name. The slot index of a session is \<open>-1\<close> exactly
  when no slot of the project has the session's slot as its name (such a session sorts
  first), and otherwise the position of the first slot of that name. Every group is
  non-empty and its first session has the least slot index of the group. The list of
  representative sessions has one session per channel; looking a channel up in it
  gives the first session of the channel's group, and the commands planned for that
  channel are those planned from that first session alone.
\<close>

theorem channel_grouper:
  assumes "\<forall>s \<in> set ss. getChannel s \<notin> set inherited_properties"
  shows "\<exists>channels. compute_channels project ss = Inr channels
     \<and> (\<forall>c. map_of channels c =
          (if c \<in> getChannel ` set ss
           then Some (sort_key (slot_index project) (filter (\<lambda>t. getChannel t = c) ss))
           else None))
     \<and> (\<forall>c g. map_of channels c = Some g \<longrightarrow>
           g \<noteq> []
           \<and> set g = {t \<in> set ss. getChannel t = c}
           \<and> sorted (map (slot_index project) g)
           \<and> (\<forall>t \<in> set g. slot_index project (hd g) \<le> slot_index project t)
           \<and> find (\<lambda>t. c = getChannel t) (representatives channels) = Some (hd g)
           \<and> sendChannelBotCommands cfg todoStrings project (representatives channels) c nick =
               sendChannelBotCommands cfg todoStrings project [hd g] c nick)
     \<and> (\<forall>t. - 1 \<le> slot_index project t
           \<and> (slot_index project t = - 1
                \<longleftrightarrow> \<not> (\<exists>sl \<in> set (slots project). Some (slot_name sl) = slot t))
           \<and> ((\<exists>sl \<in> set (slots project). Some (slot_name sl) = slot t)
                \<longrightarrow> 0 \<le> slot_index project t
                  \<and> nat (slot_index project t) < length (slots project)
                  \<and> Some (slot_name (slots project ! nat (slot_index project t))) = slot t
                  \<and> (\<forall>j < nat (slot_index project t).
                        Some (slot_name (slots project ! j)) \<noteq> slot t)))
     \<and> length (representatives channels) = length channels"
proof -
  obtain channels where cc: "compute_channels project ss = Inr channels"
    using compute_channels_proper [OF assms] by blast
  have a: "\<forall>c. map_of channels c =
        (if c \<in> getChannel ` set ss
         then Some (sort_key (slot_index project) (filter (\<lambda>t. getChannel t = c) ss))
         else None)"
    using compute_channels_invariant [OF cc] by blast
  have b: "length (representatives channels) = length channels"
    by (simp add: representatives_def length_object_values)
  have c: "\<forall>c g. map_of channels c = Some g \<longrightarrow>
           g \<noteq> []
           \<and> set g = {t \<in> set ss. getChannel t = c}
           \<and> sorted (map (slot_index project) g)
           \<and> (\<forall>t \<in> set g. slot_index project (hd g) \<le> slot_index project t)
           \<and> find (\<lambda>t. c = getChannel t) (representatives channels) = Some (hd g)
           \<and> sendChannelBotCommands cfg todoStrings project (representatives channels) c nick =
               sendChannelBotCommands cfg todoStrings project [hd g] c nick"
    using group_representative [OF cc, of _ _ cfg todoStrings nick] by blast
  show ?thesis
    using cc a b c slot_index_position [of project]
    by blast
qed

lemma ex_slot_indices:
  "slot_index ex_project ex_session = 1"
  "slot_index ex_project ex_session2 = 0"
  "slot_index ex_project ex_session3 = - 1"
  by (simp_all add: slot_index_def ex_project_def ex_session_def ex_session2_def ex_session3_def)

lemma ex_getChannel:
  "getChannel ex_session = ''#web-things''"
  "getChannel ex_session2 = ''#web-things''"
  "getChannel ex_session3 = ''#maps''"
  "getChannel ex_session4 = ''constructor''"
  by (simp_all add: getChannel_def ex_session_def ex_session2_def ex_session3_def ex_session4_def)

lemma ex_channels:
  "compute_channels ex_project [ex_session, ex_session2, ex_session3] =
     Inr [(''#web-things'', [ex_session2, ex_session]), (''#maps'', [ex_session3])]"
  by (simp add: compute_channels_def add_session_def ex_getChannel ex_slot_indices
      inherited_properties_def)

text \<open>A session whose channel is named \<open>constructor\<close> makes the loop throw.\<close>

lemma ex_channels_throw:
  "compute_channels ex_project [ex_session, ex_session4, ex_session3] =
     Inl (TypeError ''channels[channel].push is not a function'')"
  by (simp add: compute_channels_def add_session_def ex_getChannel ex_slot_indices
      inherited_properties_def)

theorem channel_grouper_witness:
  "\<not> (\<exists>s \<in> set [ex_session, ex_session2, ex_session3].
         getChannel s \<in> set inherited_properties)
   \<and> compute_channels ex_project [ex_session, ex_session2, ex_session3] =
       Inr [(''#web-things'', [ex_session2, ex_session]), (''#maps'', [ex_session3])]
   \<and> map_of [(''#web-things'', [ex_session2, ex_session]), (''#maps'', [ex_session3])]
        ''#web-things'' = Some [ex_session2, ex_session]
   \<and> set [ex_session2, ex_session] =
       {t \<in> set [ex_session, ex_session2, ex_session3]. getChannel t = ''#web-things''}
   \<and> sorted (map (slot_index ex_project) [ex_session2, ex_session])
   \<and> find (\<lambda>t. ''#web-things'' = getChannel t)
        (representatives [(''#web-things'', [ex_session2, ex_session]), (''#maps'', [ex_session3])]) =
       Some ex_session2
   \<and> sendChannelBotCommands ex_dry ex_todo ex_project
        (representatives [(''#web-things'', [ex_session2, ex_session]), (''#maps'', [ex_session3])])
        ''#web-things'' botName =
       sendChannelBotCommands ex_dry ex_todo ex_project [ex_session2] ''#web-things'' botName
   \<and> \<not> (\<exists>sl \<in> set (slots ex_project). Some (slot_name sl) = slot ex_session3)
   \<and> slot_index ex_project ex_session3 = - 1
   \<and> (\<exists>sl \<in> set (slots ex_project). Some (slot_name sl) = slot ex_session)
   \<and> Some (slot_name (slots ex_project ! nat (slot_index ex_project ex_session))) = slot ex_session
   \<and> length (representatives
        [(''#web-things'', [ex_session2, ex_session]), (''#maps'', [ex_session3])]) = 2"
proof -
  let ?ss = "[ex_session, ex_session2, ex_session3]"
  let ?chs = "[(''#web-things'', [ex_session2, ex_session]), (''#maps'', [ex_session3])]"
  have p: "\<forall>s \<in> set ?ss. getChannel s \<notin> set inherited_properties"
    by (simp add: ex_getChannel inherited_properties_def)
  note T = channel_grouper [OF p, of ex_project ex_dry ex_todo botName, unfolded ex_channels]
  have m: "map_of ?chs ''#web-things'' = Some [ex_session2, ex_session]"
    by simp
  have n3: "\<not> (\<exists>sl \<in> set (slots ex_project). Some (slot_name sl) = slot ex_session3)"
    by (simp add: ex_project_def ex_session3_def)
  have n1: "\<exists>sl \<in> set (slots ex_project). Some (slot_name sl) = slot ex_session"
    by (simp add: ex_project_def ex_session_def)
  from T m have g: "set [ex_session2, ex_session] = {t \<in> set ?ss. getChannel t = ''#web-things''}"
    "sorted (map (slot_index ex_project) [ex_session2, ex_session])"
    "find (\<lambda>t. ''#web-things'' = getChannel t) (representatives ?chs) =
       Some (hd [ex_session2, ex_session])"
    "sendChannelBotCommands ex_dry ex_todo ex_project (representatives ?chs) ''#web-things'' botName =
       sendChannelBotCommands ex_dry ex_todo ex_project [hd [ex_session2, ex_session]]
         ''#web-things'' botName"
    by blast+
  from T n3 have i3: "slot_index ex_project ex_session3 = - 1"
    by blast
  from T n1 have i1:
    "Some (slot_name (slots ex_project ! nat (slot_index ex_project ex_session))) = slot ex_session"
    by blast
  from T have l: "length (representatives ?chs) = 2"
    by auto
  from p ex_channels m g n3 i3 n1 i1 l show ?thesis
    by simp
qed

end
